theory Spec2Isabelle
  imports Complex_Main
begin

section \<open>Strings\<close>

text \<open>
  A JavaScript string is modelled as a \<open>string\<close> whose characters are read as the code
  points U+0000 to U+00FF. The string methods the services call are written out on that
  range.
\<close>

text \<open>\<open>String.prototype.startsWith\<close>: the receiver first, the search string second.\<close>

fun startsWith :: "string \<Rightarrow> string \<Rightarrow> bool" where
  "startsWith s [] = True"
| "startsWith [] (p # ps) = False"
| "startsWith (c # s) (p # ps) = (c = p \<and> startsWith s ps)"

text \<open>\<open>String.prototype.includes\<close>: the search string occurs at some position.\<close>

fun includes_str :: "string \<Rightarrow> string \<Rightarrow> bool" where
  "includes_str [] p = (p = [])"
| "includes_str (c # s) p = (startsWith (c # s) p \<or> includes_str s p)"

text \<open>
  \<open>String.prototype.toLowerCase\<close> on U+0000 to U+00FF: the letters A to Z and the
  accented capitals U+00C0 to U+00DE (the multiplication sign U+00D7 apart) move up by 32.
\<close>

definition lowerChar :: "char \<Rightarrow> char" where
  "lowerChar c =
     (let n = (of_char c :: nat)
      in if (65 \<le> n \<and> n \<le> 90) \<or> (192 \<le> n \<and> n \<le> 222 \<and> n \<noteq> 215)
         then char_of (n + 32) else c)"

definition toLowerCase :: "string \<Rightarrow> string" where
  "toLowerCase s = map lowerChar s"

text \<open>
  \<open>String.prototype.trim\<close>: white space and line terminators are removed from both ends;
  on this range they are tab, line feed, vertical tab, form feed, carriage return, space
  and the no-break space U+00A0.
\<close>

definition isWhiteSpace :: "char \<Rightarrow> bool" where
  "isWhiteSpace c = ((of_char c :: nat) \<in> {9, 10, 11, 12, 13, 32, 160})"

definition trim :: "string \<Rightarrow> string" where
  "trim s = rev (dropWhile isWhiteSpace (rev (dropWhile isWhiteSpace s)))"

section \<open>Errors and the retry policy (utils/errorHandling.ts)\<close>

text \<open>
  An \<open>Error\<close> object is its \<open>name\<close>, its \<open>message\<close> and, for a \<open>StorageError\<close>, the
  error it wraps; \<open>instanceof\<close> is read off the name. Anything else that is thrown is a
  \<open>ThrownValue\<close>, which carries what \<open>String(value)\<close> gives.
\<close>

datatype jserror = JSError (ename: string) (emessage: string) (originalError: "jserror option")

datatype thrown = ThrownError jserror | ThrownValue string

definition ValidationError :: "string \<Rightarrow> jserror" where
  "ValidationError msg = JSError ''ValidationError'' msg None"

definition StorageError :: "string \<Rightarrow> jserror option \<Rightarrow> jserror" where
  "StorageError msg orig = JSError ''StorageError'' msg orig"

definition transientMessages :: "string list" where
  "transientMessages =
     [''network'', ''timeout'', ''temporarily unavailable'', ''connection'',
      ''ECONNREFUSED'', ''ETIMEDOUT'']"

definition isTransientError :: "jserror \<Rightarrow> bool" where
  "isTransientError error =
     (let errorMessage = toLowerCase (emessage error)
      in list_ex (\<lambda>msg. includes_str errorMessage msg) transientMessages)"

text \<open>\<open>error instanceof Error ? error : new Error(String(error))\<close>\<close>

fun toError :: "thrown \<Rightarrow> jserror" where
  "toError (ThrownError e) = e"
| "toError (ThrownValue s) = JSError ''Error'' s None"

text \<open>\<open>throw lastError!\<close> after the loop: \<open>undefined\<close> when nothing was assigned.\<close>

fun throwLast :: "jserror option \<Rightarrow> thrown" where
  "throwLast None = ThrownValue ''undefined''"
| "throwLast (Some e) = ThrownError e"

text \<open>
  \<open>fn\<close> is an effectful thunk: it takes the state of the world and returns what it
  settles with and the state it leaves. The loop returns the outcome, the final state and
  the list of delays it waited, in order. \<open>maxRetries\<close> is any integer.
\<close>

function retryLoop ::
  "('s \<Rightarrow> (thrown + 'a) \<times> 's) \<Rightarrow> int \<Rightarrow> int \<Rightarrow> nat \<Rightarrow> jserror option \<Rightarrow> 's
     \<Rightarrow> (thrown + 'a) \<times> 's \<times> int list" where
  "retryLoop fn maxRetries initialDelay attempt lastError s =
     (if int attempt \<le> maxRetries then
        (case fn s of
           (Inr v, s') \<Rightarrow> (Inr v, s', [])
         | (Inl error, s') \<Rightarrow>
             (let lastError' = toError error
              in if \<not> isTransientError lastError' then (Inl (ThrownError lastError'), s', [])
                 else if int attempt = maxRetries then (Inl (ThrownError lastError'), s', [])
                 else (let delay = initialDelay * 2 ^ attempt;
                           (r, s'', waits) =
                             retryLoop fn maxRetries initialDelay (attempt + 1) (Some lastError') s'
                       in (r, s'', delay # waits))))
      else (Inl (throwLast lastError), s, []))"
  by pat_completeness auto
termination
  by (relation "measure (\<lambda>(fn, maxRetries, initialDelay, attempt, lastError, s).
        nat (maxRetries + 1 - int attempt))") auto

definition retryWithBackoff ::
  "('s \<Rightarrow> (thrown + 'a) \<times> 's) \<Rightarrow> int \<Rightarrow> int \<Rightarrow> 's \<Rightarrow> (thrown + 'a) \<times> 's \<times> int list" where
  "retryWithBackoff fn maxRetries initialDelay s = retryLoop fn maxRetries initialDelay 0 None s"

text \<open>
  The run of \<open>fn\<close> from \<open>s\<close>: the state before attempt \<open>k\<close> and what attempt \<open>k\<close>
  settles with.
\<close>

fun stateAt :: "('s \<Rightarrow> (thrown + 'a) \<times> 's) \<Rightarrow> 's \<Rightarrow> nat \<Rightarrow> 's" where
  "stateAt fn s 0 = s"
| "stateAt fn s (Suc n) = snd (fn (stateAt fn s n))"

definition attemptResult :: "('s \<Rightarrow> (thrown + 'a) \<times> 's) \<Rightarrow> 's \<Rightarrow> nat \<Rightarrow> thrown + 'a" where
  "attemptResult fn s k = fst (fn (stateAt fn s k))"

definition failsTransiently :: "('s \<Rightarrow> (thrown + 'a) \<times> 's) \<Rightarrow> 's \<Rightarrow> nat \<Rightarrow> bool" where
  "failsTransiently fn s k =
     (case attemptResult fn s k of Inl e \<Rightarrow> isTransientError (toError e) | Inr v \<Rightarrow> False)"

text \<open>The delays after the attempts \<open>a\<close> to \<open>k - 1\<close>.\<close>

definition backoff :: "int \<Rightarrow> nat \<Rightarrow> nat \<Rightarrow> int list" where
  "backoff initialDelay a k = map (\<lambda>i. initialDelay * 2 ^ i) [a..<k]"

text \<open>
  What a run of \<open>retryWithBackoff\<close> ends with when attempt \<open>k\<close> is the last one: the
  value \<open>fn\<close> returned, or the error object made of what it threw.
\<close>

definition finalOutcome :: "thrown + 'a \<Rightarrow> thrown + 'a" where
  "finalOutcome r = (case r of Inl e \<Rightarrow> Inl (ThrownError (toError e)) | Inr v \<Rightarrow> Inr v)"

section \<open>The storage adapter (storage/indexeddb.ts)\<close>

text \<open>
  \<open>IndexedDBAdapter<T extends { id: string }>\<close> is generic, and \<open>update\<close> merges with
  the object spread, so a record is modelled as what the spread sees: a map from property
  names to values. A property that is present with the value \<open>undefined\<close> is
  \<open>Some VUndefined\<close>; an absent one is \<open>None\<close>.
\<close>

datatype jsval = VUndefined | VNull | VBool bool | VNum real | VStr string

type_synonym obj = "string \<rightharpoonup> jsval"

text \<open>
  The database is the one \<open>initDatabase\<close> opens: two object stores with key path
  \<open>id\<close>, and on \<open>budgets\<close> the unique index \<open>month-category\<close>. An object store is the
  list of its records, in the order \<open>getAll\<close> returns them; the key of a record is its own
  \<open>id\<close> property. The operations of the \<open>idb\<close> library are modelled on an open database
  that fails only where IndexedDB says a request fails: \<open>add\<close> of a key that exists, and a
  write that breaks the unique index.
\<close>

datatype storeName = Transactions | Budgets

type_synonym objectStore = "obj list"

definition keyOf :: "obj \<Rightarrow> string option" where
  "keyOf r = (case r ''id'' of Some (VStr k) \<Rightarrow> Some k | _ \<Rightarrow> None)"

text \<open>
  A record is in the index \<open>month-category\<close> when both properties are valid keys; of the
  values modelled here, strings and numbers are.
\<close>

fun validKey :: "jsval \<Rightarrow> bool" where
  "validKey (VStr s) = True"
| "validKey (VNum n) = True"
| "validKey v = False"

definition indexKey :: "obj \<Rightarrow> (jsval \<times> jsval) option" where
  "indexKey r =
     (case (r ''month'', r ''category'') of
        (Some m, Some c) \<Rightarrow> if validKey m \<and> validKey c then Some (m, c) else None
      | _ \<Rightarrow> None)"

definition indexConflict :: "storeName \<Rightarrow> obj \<Rightarrow> objectStore \<Rightarrow> bool" where
  "indexConflict storeName r st =
     (storeName = Budgets \<and> indexKey r \<noteq> None \<and>
      list_ex (\<lambda>x. keyOf x \<noteq> keyOf r \<and> indexKey x = indexKey r) st)"

definition ConstraintError :: "string \<Rightarrow> jserror" where
  "ConstraintError msg = JSError ''ConstraintError'' msg None"

definition DataError :: "string \<Rightarrow> jserror" where
  "DataError msg = JSError ''DataError'' msg None"

text \<open>
  The messages of the two \<open>ConstraintError\<close>s are the browser's; the texts below are the
  ones Chromium gives.
\<close>

definition keyMessage :: string where
  "keyMessage = ''Key already exists in the object store.''"

definition indexMessage :: string where
  "indexMessage = ''Unable to add key to index 'month-category': at least one key does not satisfy the uniqueness requirements.''"

definition db_get :: "objectStore \<Rightarrow> string \<Rightarrow> obj option" where
  "db_get st k = find (\<lambda>x. keyOf x = Some k) st"

fun put_record :: "obj \<Rightarrow> objectStore \<Rightarrow> objectStore" where
  "put_record r [] = [r]"
| "put_record r (x # xs) = (if keyOf x = keyOf r then r # xs else x # put_record r xs)"

definition db_add :: "storeName \<Rightarrow> obj \<Rightarrow> objectStore \<Rightarrow> jserror + objectStore" where
  "db_add storeName r st =
     (case keyOf r of
        None \<Rightarrow> Inl (DataError ''Evaluating the object store's key path did not yield a value.'')
      | Some k \<Rightarrow>
          if db_get st k \<noteq> None
          then Inl (ConstraintError keyMessage)
          else if indexConflict storeName r st
          then Inl (ConstraintError indexMessage)
          else Inr (st @ [r]))"

definition db_put :: "storeName \<Rightarrow> obj \<Rightarrow> objectStore \<Rightarrow> jserror + objectStore" where
  "db_put storeName r st =
     (case keyOf r of
        None \<Rightarrow> Inl (DataError ''Evaluating the object store's key path did not yield a value.'')
      | Some k \<Rightarrow>
          if indexConflict storeName r st
          then Inl (ConstraintError indexMessage)
          else Inr (put_record r st))"

definition db_delete :: "objectStore \<Rightarrow> string \<Rightarrow> objectStore" where
  "db_delete st k = filter (\<lambda>x. keyOf x \<noteq> Some k) st"

definition db_getAll :: "objectStore \<Rightarrow> obj list" where
  "db_getAll st = st"

text \<open>
  \<open>generateUUID\<close> fills the template from left to right with \<open>Math.random() * 16 | 0\<close>;
  the random source is the function \<open>rnd\<close>, read at 0, 1, 2 and so on.
\<close>

definition hexDigit :: "nat \<Rightarrow> char" where
  "hexDigit v = ''0123456789abcdef'' ! (v mod 16)"

fun fillTemplate :: "string \<Rightarrow> (nat \<Rightarrow> nat) \<Rightarrow> nat \<Rightarrow> string" where
  "fillTemplate [] rnd i = []"
| "fillTemplate (c # cs) rnd i =
     (if c = CHR ''x'' \<or> c = CHR ''y''
      then (let r = rnd i mod 16;
                v = (if c = CHR ''x'' then r else or (and r 3) 8)
            in hexDigit v # fillTemplate cs rnd (Suc i))
      else c # fillTemplate cs rnd i)"

definition generateUUID :: "(nat \<Rightarrow> nat) \<Rightarrow> string" where
  "generateUUID rnd = fillTemplate ''xxxxxxxx-xxxx-4xxx-yxxx-xxxxxxxxxxxx'' rnd 0"

text \<open>
  The five operations. Each returns what the promise settles with (\<open>Inl\<close> what is thrown),
  the store afterwards and the waits of \<open>retryWithBackoff\<close> in milliseconds.
\<close>

definition add ::
  "storeName \<Rightarrow> (nat \<Rightarrow> nat) \<Rightarrow> obj \<Rightarrow> objectStore \<Rightarrow> (thrown + string) \<times> objectStore \<times> int list" where
  "add storeName rnd item st =
     (let ident = generateUUID rnd;
          itemWithId = item(''id'' \<mapsto> VStr ident);
          (r, st', waits) =
            retryWithBackoff
              (\<lambda>s. case db_add storeName itemWithId s of
                      Inl e \<Rightarrow> (Inl (ThrownError e), s)
                    | Inr s' \<Rightarrow> (Inr (), s'))
              2 100 st
      in case r of
           Inr u \<Rightarrow> (Inr ident, st', waits)
         | Inl (ThrownError error) \<Rightarrow>
             if ename error = ''QuotaExceededError''
             then (Inl (ThrownError (StorageError
                     ''Storage quota exceeded. Please export your data and clear old records.''
                     (Some error))), st', waits)
             else (Inl (ThrownError (StorageError
                     (''Failed to add item: '' @ emessage error) (Some error))), st', waits)
         | Inl (ThrownValue v) \<Rightarrow>
             (Inl (ThrownError (StorageError ''Failed to add item: Unknown error'' None)), st', waits))"

definition getAll :: "objectStore \<Rightarrow> (thrown + obj list) \<times> objectStore \<times> int list" where
  "getAll st =
     (let (r, st', waits) = retryWithBackoff (\<lambda>s. (Inr (db_getAll s), s)) 2 100 st
      in case r of
           Inr xs \<Rightarrow> (Inr xs, st', waits)
         | Inl (ThrownError error) \<Rightarrow>
             (Inl (ThrownError (StorageError
                (''Failed to retrieve items: '' @ emessage error) (Some error))), st', waits)
         | Inl (ThrownValue v) \<Rightarrow>
             (Inl (ThrownError (StorageError ''Failed to retrieve items: Unknown error'' None)),
              st', waits))"

definition getById :: "string \<Rightarrow> objectStore \<Rightarrow> (thrown + obj option) \<times> objectStore \<times> int list" where
  "getById ident st =
     (let (r, st', waits) = retryWithBackoff (\<lambda>s. (Inr (db_get s ident), s)) 2 100 st
      in case r of
           Inr x \<Rightarrow> (Inr x, st', waits)
         | Inl (ThrownError error) \<Rightarrow>
             (Inl (ThrownError (StorageError
                (''Failed to retrieve item: '' @ emessage error) (Some error))), st', waits)
         | Inl (ThrownValue v) \<Rightarrow>
             (Inl (ThrownError (StorageError ''Failed to retrieve item: Unknown error'' None)),
              st', waits))"

definition notFound :: "string \<Rightarrow> jserror" where
  "notFound ident = StorageError (''Item with id '' @ ident @ '' not found'') None"

definition update_fn :: "storeName \<Rightarrow> string \<Rightarrow> obj \<Rightarrow> objectStore \<Rightarrow> (thrown + unit) \<times> objectStore" where
  "update_fn storeName ident item s =
     (case db_get s ident of
        None \<Rightarrow> (Inl (ThrownError (notFound ident)), s)
      | Some existing \<Rightarrow>
          (let updated = (existing ++ item)(''id'' \<mapsto> VStr ident)
           in case db_put storeName updated s of
                Inl e \<Rightarrow> (Inl (ThrownError e), s)
              | Inr s' \<Rightarrow> (Inr (), s')))"

definition update ::
  "storeName \<Rightarrow> string \<Rightarrow> obj \<Rightarrow> objectStore \<Rightarrow> (thrown + unit) \<times> objectStore \<times> int list" where
  "update storeName ident item st =
     (let (r, st', waits) = retryWithBackoff (update_fn storeName ident item) 2 100 st
      in case r of
           Inr u \<Rightarrow> (Inr (), st', waits)
         | Inl (ThrownError error) \<Rightarrow>
             if ename error = ''StorageError''
             then (Inl (ThrownError error), st', waits)
             else (Inl (ThrownError (StorageError
                     (''Failed to update item: '' @ emessage error) (Some error))), st', waits)
         | Inl (ThrownValue v) \<Rightarrow>
             (Inl (ThrownError (StorageError ''Failed to update item: Unknown error'' None)),
              st', waits))"

definition delete ::
  "string \<Rightarrow> objectStore \<Rightarrow> (thrown + unit) \<times> objectStore \<times> int list" where
  "delete ident st =
     (let (r, st', waits) = retryWithBackoff (\<lambda>s. (Inr (), db_delete s ident)) 2 100 st
      in case r of
           Inr u \<Rightarrow> (Inr (), st', waits)
         | Inl (ThrownError error) \<Rightarrow>
             (Inl (ThrownError (StorageError
                (''Failed to delete item: '' @ emessage error) (Some error))), st', waits)
         | Inl (ThrownValue v) \<Rightarrow>
             (Inl (ThrownError (StorageError ''Failed to delete item: Unknown error'' None)),
              st', waits))"

text \<open>The store a run leaves behind, and one field of one stored record.\<close>

definition storeAfter :: "'a \<times> objectStore \<times> int list \<Rightarrow> objectStore" where
  "storeAfter run = fst (snd run)"

definition readField :: "objectStore \<Rightarrow> string \<Rightarrow> string \<Rightarrow> jsval option" where
  "readField st k f = (case db_get st k of None \<Rightarrow> None | Some r \<Rightarrow> r f)"

section \<open>Data model (types/index.ts)\<close>

text \<open>
  A \<open>number\<close> field is modelled as a \<open>real\<close>: the value of a finite double. Sums of
  amounts in one pass over a list are taken exactly. Where a result depends on how the
  additions round, as for the totals per category, the rounding of an exact sum to a
  double is a parameter \<open>rnd\<close> of the function, and nothing is assumed of it but what a
  statement says.
\<close>

record transaction =
  tid :: string
  date :: string
  amount :: real
  category :: string
  tnotes :: "string option"

record budget =
  bid :: string
  month :: string
  bcategory :: string
  limit :: real

section \<open>CalculationService on well-typed input\<close>

text \<open>
  On a \<open>Transaction[]\<close> the guard \<open>Array.isArray\<close> holds and no property read can
  throw, so the \<open>try\<close> body is the whole function. \<open>Array.prototype.reduce\<close> with an
  initial value is \<open>foldl\<close>.
\<close>

definition calculateTotalBalance :: "transaction list \<Rightarrow> real" where
  "calculateTotalBalance transactions =
     foldl (\<lambda>sum t. sum + amount t) 0 transactions"

definition calculateMonthlySpending :: "transaction list \<Rightarrow> string \<Rightarrow> real" where
  "calculateMonthlySpending transactions m =
     (let monthTransactions = filter (\<lambda>t. startsWith (date t) m \<and> amount t < 0) transactions
      in \<bar>foldl (\<lambda>sum t. sum + amount t) 0 monthTransactions\<bar>)"

definition calculateBudgetRemaining :: "budget \<Rightarrow> transaction list \<Rightarrow> real" where
  "calculateBudgetRemaining b transactions =
     (let relevantTransactions =
            filter (\<lambda>t. startsWith (date t) (month b) \<and> category t = bcategory b \<and> amount t < 0)
              transactions;
          spent = \<bar>foldl (\<lambda>sum t. sum + amount t) 0 relevantTransactions\<bar>
      in limit b - spent)"

record categoryTotal =
  ccategory :: string
  ctotal :: real

record spendingOverTime =
  sdate :: string
  samount :: real

text \<open>
  A \<open>Map<string, number>\<close> keeps its keys in insertion order: an association list,
  where \<open>set\<close> overwrites a key in place and appends a new key at the end
  (\<open>map_set\<close>). \<open>map.get(k) || 0\<close> is 0 for a missing key and for a stored 0.
\<close>

fun map_set :: "string \<Rightarrow> real \<Rightarrow> (string \<times> real) list \<Rightarrow> (string \<times> real) list" where
  "map_set k v [] = [(k, v)]"
| "map_set k v (p # ps) = (if fst p = k then (k, v) # ps else p # map_set k v ps)"

definition getOr0 :: "(string \<times> real) list \<Rightarrow> string \<Rightarrow> real" where
  "getOr0 m k = (case map_of m k of None \<Rightarrow> 0 | Some v \<Rightarrow> if v = 0 then 0 else v)"

text \<open>
  \<open>Array.prototype.sort\<close> with a comparator is stable: with a consistent comparator the
  result is the one that inserts each element before the first later element it does not
  have to follow. The argument \<open>precedes a b\<close> stands for \<open>compare(a, b) \<le> 0\<close>.
\<close>

fun sort_insert :: "('a \<Rightarrow> 'a \<Rightarrow> bool) \<Rightarrow> 'a \<Rightarrow> 'a list \<Rightarrow> 'a list" where
  "sort_insert precedes x [] = [x]"
| "sort_insert precedes x (y # ys) =
     (if precedes x y then x # y # ys else y # sort_insert precedes x ys)"

fun array_sort :: "('a \<Rightarrow> 'a \<Rightarrow> bool) \<Rightarrow> 'a list \<Rightarrow> 'a list" where
  "array_sort precedes [] = []"
| "array_sort precedes (x # xs) = sort_insert precedes x (array_sort precedes xs)"

text \<open>
  \<open>calculateCategoryTotals\<close>. The addition \<open>current + Math.abs(transaction.amount)\<close> is a
  floating-point addition: the exact sum, rounded by \<open>rnd\<close>. \<open>Math.abs\<close> is exact. The
  comparator \<open>b.total - a.total\<close> is read for its sign only, and the difference of two
  doubles has the sign of the exact difference.
\<close>

definition categoryStep ::
  "(real \<Rightarrow> real) \<Rightarrow> (string \<times> real) list \<Rightarrow> transaction \<Rightarrow> (string \<times> real) list" where
  "categoryStep rnd categoryMap t =
     (let current = getOr0 categoryMap (category t)
      in map_set (category t) (rnd (current + \<bar>amount t\<bar>)) categoryMap)"

definition calculateCategoryTotals :: "(real \<Rightarrow> real) \<Rightarrow> transaction list \<Rightarrow> categoryTotal list" where
  "calculateCategoryTotals rnd transactions =
     (let categoryMap = foldl (categoryStep rnd) [] (filter (\<lambda>t. amount t < 0) transactions);
          totals = map (\<lambda>(c, tot). \<lparr>ccategory = c, ctotal = tot\<rparr>) categoryMap
      in array_sort (\<lambda>a b. ctotal b - ctotal a \<le> 0) totals)"




text \<open>Thunks that count their calls, for the examples of the retry policy.\<close>

definition flakyThenOk :: "nat \<Rightarrow> (thrown + string) \<times> nat" where
  "flakyThenOk n =
     (if n < 2 then (Inl (ThrownError (JSError ''Error'' ''Network timeout'' None)), Suc n)
      else (Inr ''done'', Suc n))"

definition flakyThenInvalid :: "nat \<Rightarrow> (thrown + string) \<times> nat" where
  "flakyThenInvalid n =
     (if n < 1 then (Inl (ThrownError (JSError ''Error'' ''Connection lost'' None)), Suc n)
      else (Inl (ThrownError (JSError ''ValidationError'' ''Limit is required'' None)), Suc n))"

definition alwaysDown :: "nat \<Rightarrow> (thrown + string) \<times> nat" where
  "alwaysDown n = (Inl (ThrownError (JSError ''Error'' (''timeout #'' @ replicate n CHR ''I'') None)), Suc n)"

text \<open>
  A thunk that rejects with a string, as \<open>() => Promise.reject(msg)\<close> does, and not with an
  Error object.
\<close>

definition rejectsWithString :: "string \<Rightarrow> nat \<Rightarrow> (thrown + string) \<times> nat" where
  "rejectsWithString msg n = (Inl (ThrownValue msg), Suc n)"

section \<open>BudgetService (services/budgetService.ts)\<close>

text \<open>
  \<open>Omit<Budget, 'id'>\<close> is \<open>budgetData\<close>. In a \<open>Partial\<close> of it a property is absent,
  present with the value \<open>undefined\<close>, or given: \<open>Object.keys\<close> counts the second,
  \<open>??\<close> and \<open>!== undefined\<close> do not.
\<close>

record budgetData =
  dmonth :: string
  dcategory :: string
  dlimit :: real

datatype 'a field = Absent | Undefined | Given 'a

record budgetPatch =
  pmonth :: "string field"
  pcategory :: "string field"
  plimit :: "real field"

fun orElse :: "'a field \<Rightarrow> 'a \<Rightarrow> 'a" where
  "orElse (Given v) d = v"
| "orElse Undefined d = d"
| "orElse Absent d = d"

fun isGiven :: "'a field \<Rightarrow> bool" where
  "isGiven (Given v) = True"
| "isGiven Undefined = False"
| "isGiven Absent = False"

text \<open>
  \<open>/^\d{4}-\d{2}$/\<close>, and \<open>isNaN(new Date(month + '-01').getTime())\<close>, which on a
  string of that form holds exactly when the month number is not 01 to 12. The limit is a
  \<open>real\<close>, so the checks for \<open>undefined\<close>, \<open>null\<close>, a non-number and a non-finite number
  have nothing to reject.
\<close>

definition isDigit :: "char \<Rightarrow> bool" where
  "isDigit c = (48 \<le> (of_char c :: nat) \<and> (of_char c :: nat) \<le> 57)"

definition digitValue :: "char \<Rightarrow> nat" where
  "digitValue c = (of_char c :: nat) - 48"

fun monthRegexTest :: "string \<Rightarrow> bool" where
  "monthRegexTest [y1, y2, y3, y4, h, m1, m2] =
     (isDigit y1 \<and> isDigit y2 \<and> isDigit y3 \<and> isDigit y4 \<and> h = CHR ''-'' \<and> isDigit m1 \<and> isDigit m2)"
| "monthRegexTest s = False"

definition monthDateIsNaN :: "string \<Rightarrow> bool" where
  "monthDateIsNaN m =
     (let mm = 10 * digitValue (m ! 5) + digitValue (m ! 6) in \<not> (1 \<le> mm \<and> mm \<le> 12))"

definition validateBudgetData :: "budgetData \<Rightarrow> jserror option" where
  "validateBudgetData data =
     (if dmonth data = [] then Some (ValidationError ''Month is required and must be a string'')
      else if \<not> monthRegexTest (dmonth data)
      then Some (ValidationError ''Month must be in YYYY-MM format'')
      else if monthDateIsNaN (dmonth data) then Some (ValidationError ''Month must be a valid month'')
      else if dcategory data = []
      then Some (ValidationError ''Category is required and must be a string'')
      else if length (trim (dcategory data)) = 0 then Some (ValidationError ''Category cannot be empty'')
      else if length (dcategory data) > 50
      then Some (ValidationError ''Category must not exceed 50 characters'')
      else if dlimit data \<le> 0 then Some (ValidationError ''Limit must be a positive number'')
      else None)"

text \<open>
  The service is handed a \<open>StorageAdapter<Budget>\<close>: it writes budgets as records of the
  adapter and reads records as budgets. \<open>asBudget\<close> is the cast \<open>as T\<close>; on a record
  that \<open>encodeBudget\<close> made it gives the budget back.
\<close>

definition encodeData :: "budgetData \<Rightarrow> obj" where
  "encodeData d =
     [''month'' \<mapsto> VStr (dmonth d), ''category'' \<mapsto> VStr (dcategory d), ''limit'' \<mapsto> VNum (dlimit d)]"

definition encodeBudget :: "budget \<Rightarrow> obj" where
  "encodeBudget b =
     [''month'' \<mapsto> VStr (month b), ''category'' \<mapsto> VStr (bcategory b),
      ''limit'' \<mapsto> VNum (limit b), ''id'' \<mapsto> VStr (bid b)]"

fun stringOf :: "jsval option \<Rightarrow> string" where
  "stringOf (Some (VStr s)) = s"
| "stringOf v = []"

fun numberOf :: "jsval option \<Rightarrow> real" where
  "numberOf (Some (VNum n)) = n"
| "numberOf v = 0"

definition asBudget :: "obj \<Rightarrow> budget" where
  "asBudget r =
     \<lparr>bid = stringOf (r ''id''), month = stringOf (r ''month''),
      bcategory = stringOf (r ''category''), limit = numberOf (r ''limit'')\<rparr>"

definition encodePatch :: "budgetPatch \<Rightarrow> obj" where
  "encodePatch p =
     (\<lambda>k. if k = ''month'' then (case pmonth p of Given m \<Rightarrow> Some (VStr m) | _ \<Rightarrow> None)
          else if k = ''category'' then (case pcategory p of Given c \<Rightarrow> Some (VStr c) | _ \<Rightarrow> None)
          else if k = ''limit'' then (case plimit p of Given l \<Rightarrow> Some (VNum l) | _ \<Rightarrow> None)
          else None)"

text \<open>
  \<open>isDuplicateBudget\<close>: the callback of \<open>some\<close>, with \<open>excludeId && budget.id === excludeId\<close>
  false for a missing and for an empty \<open>excludeId\<close>.
\<close>

definition someDuplicate :: "budget list \<Rightarrow> string \<Rightarrow> string \<Rightarrow> string option \<Rightarrow> bool" where
  "someDuplicate allBudgets m c excludeId =
     (let normalizedCategory = toLowerCase (trim c)
      in list_ex (\<lambda>b.
           if (case excludeId of None \<Rightarrow> False | Some e \<Rightarrow> e \<noteq> [] \<and> bid b = e) then False
           else month b = m \<and> toLowerCase (bcategory b) = normalizedCategory) allBudgets)"

definition isDuplicateBudget ::
  "string \<Rightarrow> string \<Rightarrow> string option \<Rightarrow> objectStore \<Rightarrow> (thrown + bool) \<times> objectStore \<times> int list" where
  "isDuplicateBudget m c excludeId st =
     (case getAll st of
        (Inl e, st', waits) \<Rightarrow> (Inl e, st', waits)
      | (Inr allBudgets, st', waits) \<Rightarrow>
          (Inr (someDuplicate (map asBudget allBudgets) m c excludeId), st', waits))"

definition duplicateMessage :: "string \<Rightarrow> string \<Rightarrow> string" where
  "duplicateMessage c m = ''A budget for '' @ c @ '' in '' @ m @ '' already exists''"

definition addBudget ::
  "(nat \<Rightarrow> nat) \<Rightarrow> budgetData \<Rightarrow> objectStore \<Rightarrow> (thrown + budget) \<times> objectStore \<times> int list" where
  "addBudget rnd data st =
     (case validateBudgetData data of
        Some e \<Rightarrow> (Inl (ThrownError e), st, [])
      | None \<Rightarrow>
          (let sanitizedData = data\<lparr>dcategory := trim (dcategory data)\<rparr>
           in case isDuplicateBudget (dmonth sanitizedData) (dcategory sanitizedData) None st of
                (Inl e, st1, w1) \<Rightarrow> (Inl e, st1, w1)
              | (Inr isDuplicate, st1, w1) \<Rightarrow>
                  if isDuplicate
                  then (Inl (ThrownError (ValidationError
                          (duplicateMessage (dcategory sanitizedData) (dmonth sanitizedData)))), st1, w1)
                  else (case add Budgets rnd (encodeData sanitizedData) st1 of
                          (Inl e, st2, w2) \<Rightarrow> (Inl e, st2, w1 @ w2)
                        | (Inr ident, st2, w2) \<Rightarrow>
                            (Inr \<lparr>bid = ident, month = dmonth sanitizedData,
                                  bcategory = dcategory sanitizedData,
                                  limit = dlimit sanitizedData\<rparr>, st2, w1 @ w2))))"

definition budgetNotFound :: "string \<Rightarrow> jserror" where
  "budgetNotFound ident = JSError ''Error'' (''Budget with id '' @ ident @ '' not found'') None"

definition sanitizePatch :: "budgetPatch \<Rightarrow> budgetPatch" where
  "sanitizePatch data =
     \<lparr>pmonth = (case pmonth data of Given m \<Rightarrow> Given m | _ \<Rightarrow> Absent),
      pcategory = (case pcategory data of Given c \<Rightarrow> Given (trim c) | _ \<Rightarrow> Absent),
      plimit = (case plimit data of Given l \<Rightarrow> Given l | _ \<Rightarrow> Absent)\<rparr>"

definition updateBudget ::
  "string \<Rightarrow> budgetPatch \<Rightarrow> objectStore \<Rightarrow> (thrown + unit) \<times> objectStore \<times> int list" where
  "updateBudget ident data st =
     (if pmonth data = Absent \<and> pcategory data = Absent \<and> plimit data = Absent
      then (Inl (ThrownError (ValidationError ''No data provided for update'')), st, [])
      else case getById ident st of
             (Inl e, st1, w1) \<Rightarrow> (Inl e, st1, w1)
           | (Inr None, st1, w1) \<Rightarrow> (Inl (ThrownError (budgetNotFound ident)), st1, w1)
           | (Inr (Some r), st1, w1) \<Rightarrow>
               (let existing = asBudget r;
                    mergedData = \<lparr>dmonth = orElse (pmonth data) (month existing),
                                  dcategory = orElse (pcategory data) (bcategory existing),
                                  dlimit = orElse (plimit data) (limit existing)\<rparr>
                in case validateBudgetData mergedData of
                     Some e \<Rightarrow> (Inl (ThrownError e), st1, w1)
                   | None \<Rightarrow>
                       (case (if isGiven (pmonth data) \<or> isGiven (pcategory data)
                              then isDuplicateBudget (dmonth mergedData) (dcategory mergedData)
                                     (Some ident) st1
                              else (Inr False, st1, []))
                        of (Inl e, st2, w2) \<Rightarrow> (Inl e, st2, w1 @ w2)
                         | (Inr isDuplicate, st2, w2) \<Rightarrow>
                             if isDuplicate
                             then (Inl (ThrownError (ValidationError
                                     (duplicateMessage (dcategory mergedData) (dmonth mergedData)))),
                                   st2, w1 @ w2)
                             else (case update Budgets ident (encodePatch (sanitizePatch data)) st2 of
                                     (r3, st3, w3) \<Rightarrow> (r3, st3, w1 @ w2 @ w3)))))"

definition deleteBudget :: "string \<Rightarrow> objectStore \<Rightarrow> (thrown + unit) \<times> objectStore \<times> int list" where
  "deleteBudget ident st = delete ident st"

definition getAllBudgets :: "objectStore \<Rightarrow> (thrown + budget list) \<times> objectStore \<times> int list" where
  "getAllBudgets st =
     (case getAll st of
        (Inl e, st', waits) \<Rightarrow> (Inl e, st', waits)
      | (Inr allBudgets, st', waits) \<Rightarrow> (Inr (map asBudget allBudgets), st', waits))"

text \<open>The stores the Budget Service can bring about, starting from the empty one.\<close>

inductive reachable :: "objectStore \<Rightarrow> bool" where
  initial: "reachable []"
| afterAdd: "reachable st \<Longrightarrow> reachable (storeAfter (addBudget rnd data st))"
| afterUpdate: "reachable st \<Longrightarrow> reachable (storeAfter (updateBudget ident patch st))"
| afterDelete: "reachable st \<Longrightarrow> reachable (storeAfter (deleteBudget ident st))"


text \<open>
  Two budgets take the same slot when they have the same month and categories equal up to
  letter case. The remaining definitions name the parts of the runs of \<open>addBudget\<close> and
  \<open>updateBudget\<close>: the sanitized data, the budget created, the merged view that is
  validated, the record written and the budget it holds, and the invariant of the store.
\<close>

definition sameSlot :: "budget \<Rightarrow> budget \<Rightarrow> bool" where
  "sameSlot a b = (month a = month b \<and> toLowerCase (bcategory a) = toLowerCase (bcategory b))"

definition sanitized :: "budgetData \<Rightarrow> budgetData" where
  "sanitized data = data\<lparr>dcategory := trim (dcategory data)\<rparr>"

definition created :: "string \<Rightarrow> budgetData \<Rightarrow> budget" where
  "created ident data =
     \<lparr>bid = ident, month = dmonth data, bcategory = trim (dcategory data), limit = dlimit data\<rparr>"

definition merged :: "budget \<Rightarrow> budgetPatch \<Rightarrow> budgetData" where
  "merged existing data =
     \<lparr>dmonth = orElse (pmonth data) (month existing),
      dcategory = orElse (pcategory data) (bcategory existing),
      dlimit = orElse (plimit data) (limit existing)\<rparr>"

definition written :: "string \<Rightarrow> obj \<Rightarrow> budgetPatch \<Rightarrow> obj" where
  "written ident r data = (r ++ encodePatch (sanitizePatch data))(''id'' \<mapsto> VStr ident)"

definition applied :: "string \<Rightarrow> budget \<Rightarrow> budgetPatch \<Rightarrow> budget" where
  "applied ident b data =
     \<lparr>bid = ident,
      month = orElse (pmonth data) (month b),
      bcategory = (case pcategory data of Given c \<Rightarrow> trim c | _ \<Rightarrow> bcategory b),
      limit = orElse (plimit data) (limit b)\<rparr>"

definition wellFormed :: "obj \<Rightarrow> bool" where
  "wellFormed r =
     (encodeBudget (asBudget r) = r \<and> bid (asBudget r) \<noteq> [] \<and>
      trim (bcategory (asBudget r)) = bcategory (asBudget r))"

definition storeInv :: "objectStore \<Rightarrow> bool" where
  "storeInv st =
     ((\<forall>r \<in> set st. wellFormed r) \<and> distinct (map keyOf st) \<and>
      (\<forall>r1 \<in> set st. \<forall>r2 \<in> set st.
         keyOf r1 \<noteq> keyOf r2 \<longrightarrow> \<not> sameSlot (asBudget r1) (asBudget r2)))"

definition collides :: "budget \<Rightarrow> budgetData \<Rightarrow> bool" where
  "collides b data =
     (month b = dmonth data \<and> toLowerCase (bcategory b) = toLowerCase (trim (dcategory data)))"

definition noData :: "budgetPatch \<Rightarrow> bool" where
  "noData data = (pmonth data = Absent \<and> pcategory data = Absent \<and> plimit data = Absent)"

text \<open>Two budgets added through the service, for the example of the uniqueness rule.\<close>

definition groceries :: budgetData where
  "groceries = \<lparr>dmonth = ''2025-01'', dcategory = ''Groceries'', dlimit = 400\<rparr>"

definition rent :: budgetData where
  "rent = \<lparr>dmonth = ''2025-01'', dcategory = ''Rent'', dlimit = 1000\<rparr>"

definition twoBudgets :: objectStore where
  "twoBudgets =
     storeAfter (addBudget (\<lambda>i. 0) rent (storeAfter (addBudget (\<lambda>i. i) groceries [])))"

section \<open>Dates and the time-bucketed series (CalculationService.calculateSpendingOverTime)\<close>

text \<open>
  A \<open>Date\<close> is its time value: milliseconds since 1970-01-01T00:00Z. The local time zone
  of the browser is a parameter \<open>tz\<close>, its offset from UTC in minutes (positive east of
  Greenwich, the negative of \<open>getTimezoneOffset()\<close>). The model has one offset for all
  dates. A zone with daylight saving time has two, and a week in which the offset changes
  is outside the model: what is proved below about week keys is proved of the code for a
  zone, or a stretch of the year, in which the offset is \<open>tz\<close> throughout.

  Days are counted from 1970-01-01; \<open>daysFromCivil\<close> and \<open>civilFromDays\<close> convert between
  a day number and a date of the proleptic Gregorian calendar, as \<open>MakeDay\<close> and
  \<open>YearFromTime\<close>, \<open>MonthFromTime\<close>, \<open>DateFromTime\<close> of ECMAScript do.
\<close>

definition msPerDay :: int where
  "msPerDay = 86400000"

definition isLeapYear :: "int \<Rightarrow> bool" where
  "isLeapYear y = (y mod 4 = 0 \<and> (y mod 100 \<noteq> 0 \<or> y mod 400 = 0))"

definition daysInMonth :: "int \<Rightarrow> int \<Rightarrow> int" where
  "daysInMonth y m =
     (if m = 2 then (if isLeapYear y then 29 else 28)
      else if m = 4 \<or> m = 6 \<or> m = 9 \<or> m = 11 then 30 else 31)"

definition daysFromCivil :: "int \<Rightarrow> int \<Rightarrow> int \<Rightarrow> int" where
  "daysFromCivil y m d =
     (let y' = (if m \<le> 2 then y - 1 else y);
          era = y' div 400;
          yoe = y' - era * 400;
          mp = (m + 9) mod 12;
          doy = (153 * mp + 2) div 5 + d - 1;
          doe = yoe * 365 + yoe div 4 - yoe div 100 + doy
      in era * 146097 + doe - 719468)"

definition civilFromDays :: "int \<Rightarrow> int \<times> int \<times> int" where
  "civilFromDays z =
     (let z' = z + 719468;
          era = z' div 146097;
          doe = z' - era * 146097;
          yoe = (doe - doe div 1460 + doe div 36524 - doe div 146096) div 365;
          doy = doe - (365 * yoe + yoe div 4 - yoe div 100);
          mp = (5 * doy + 2) div 153;
          d = doy - (153 * mp + 2) div 5 + 1;
          m = (if mp < 10 then mp + 3 else mp - 9);
          y = yoe + era * 400
      in (if m \<le> 2 then y + 1 else y, m, d))"

text \<open>
  \<open>new Date(s)\<close> on a date-only string \<open>YYYY-MM-DD\<close> is midnight UTC of that day. The
  model reads exactly this form, with a month from 01 to 12 and a day that the month has,
  and gives an invalid date on any other string. On those other strings engines differ
  and the model does not follow them: V8 reads \<open>2025-02-30\<close> as 2 March 2025, and reads
  many strings of other shapes with its own parser. Such a string can pass the check of
  the transaction service, which asks for the shape \<open>dddd-dd-dd\<close> and a date that is not
  invalid in the engine. What is proved below about week keys is about the strings that
  \<open>parseISODate\<close> accepts.
\<close>

definition digitsValue :: "string \<Rightarrow> int" where
  "digitsValue s = foldl (\<lambda>n c. 10 * n + int (digitValue c)) 0 s"

fun parseISODate :: "string \<Rightarrow> int option" where
  "parseISODate [y1, y2, y3, y4, h1, m1, m2, h2, d1, d2] =
     (if list_all isDigit [y1, y2, y3, y4, m1, m2, d1, d2] \<and> h1 = CHR ''-'' \<and> h2 = CHR ''-''
      then (let y = digitsValue [y1, y2, y3, y4]; m = digitsValue [m1, m2]; d = digitsValue [d1, d2]
            in if 1 \<le> m \<and> m \<le> 12 \<and> 1 \<le> d \<and> d \<le> daysInMonth y m
               then Some (daysFromCivil y m d * msPerDay) else None)
      else None)"
| "parseISODate s = None"

text \<open>
  \<open>getDay()\<close> is the day of the week (0 is Sunday) of the local time.
  \<open>monday.setDate(dateObj.getDate() + diff)\<close> moves the local date by \<open>diff\<close> days and
  keeps the local time of day (\<open>moveDate\<close>); with the one offset of the model that is a
  move by \<open>diff\<close> times 24 hours. \<open>toISOString()\<close> prints the UTC date; its
  first ten characters are \<open>YYYY-MM-DD\<close> for the years 0 to 9999 and the start of the
  expanded form otherwise.
\<close>

definition localTime :: "int \<Rightarrow> int \<Rightarrow> int" where
  "localTime tz t = t + tz * 60000"

definition utcTime :: "int \<Rightarrow> int \<Rightarrow> int" where
  "utcTime tz t = t - tz * 60000"

definition weekDay :: "int \<Rightarrow> int" where
  "weekDay t = (t div msPerDay + 4) mod 7"

definition getDay :: "int \<Rightarrow> int \<Rightarrow> int" where
  "getDay tz t = weekDay (localTime tz t)"

definition moveDate :: "int \<Rightarrow> int \<Rightarrow> int \<Rightarrow> int" where
  "moveDate tz t diff = utcTime tz (localTime tz t + diff * msPerDay)"

definition digitChar :: "int \<Rightarrow> char" where
  "digitChar n = char_of (48 + nat (n mod 10))"

definition pad2 :: "int \<Rightarrow> string" where
  "pad2 n = [digitChar (n div 10), digitChar n]"

definition pad4 :: "int \<Rightarrow> string" where
  "pad4 n = [digitChar (n div 1000), digitChar (n div 100), digitChar (n div 10), digitChar n]"

definition pad6 :: "int \<Rightarrow> string" where
  "pad6 n = [digitChar (n div 100000), digitChar (n div 10000)] @ pad4 n"

definition toISOString10 :: "int \<Rightarrow> string" where
  "toISOString10 t =
     (case civilFromDays (t div msPerDay) of
        (y, m, d) \<Rightarrow>
          if 0 \<le> y \<and> y \<le> 9999 then pad4 y @ ''-'' @ pad2 m @ ''-'' @ pad2 d
          else take 10 ((if y < 0 then ''-'' else ''+'') @ pad6 \<bar>y\<bar> @ ''-'' @ pad2 m @ ''-'' @ pad2 d))"

datatype groupBy = Day | Week | Month

definition getGroupKey :: "int \<Rightarrow> string \<Rightarrow> groupBy \<Rightarrow> thrown + string" where
  "getGroupKey tz dateString g =
     (if g = Day then Inr dateString
      else if g = Month then Inr (take 7 dateString)
      else (case parseISODate dateString of
              None \<Rightarrow> Inl (ThrownError (JSError ''RangeError'' ''Invalid time value'' None))
            | Some dateObj \<Rightarrow>
                (let dayOfWeek = getDay tz dateObj;
                     diff = (if dayOfWeek = 0 then - 6 else 1 - dayOfWeek);
                     monday = moveDate tz dateObj diff
                 in Inr (toISOString10 monday))))"

text \<open>
  \<open>a.localeCompare(b)\<close> is the collation of the engine's locale. It is modelled as the
  comparison by character code. The two agree on keys of one shape made of digits with
  hyphens at fixed places, \<open>YYYY-MM-DD\<close> and \<open>YYYY-MM\<close>, which are the keys of
  transactions with dates in the years 0001 to 9999. They need not agree on other strings;
  a key for \<open>day\<close> is the date field as it is, whatever string that is. Order under
  \<open>localeCompare\<close> below is the order of the model.
\<close>

fun compareChars :: "string \<Rightarrow> string \<Rightarrow> int" where
  "compareChars [] [] = 0"
| "compareChars [] (b # bs) = - 1"
| "compareChars (a # as) [] = 1"
| "compareChars (a # as) (b # bs) =
     (if (of_char a :: nat) < of_char b then - 1
      else if (of_char b :: nat) < of_char a then 1
      else compareChars as bs)"

definition localeCompare :: "string \<Rightarrow> string \<Rightarrow> int" where
  "localeCompare a b = compareChars a b"

text \<open>
  \<open>calculateSpendingOverTime\<close>: an exception of \<open>getGroupKey\<close> leaves the \<open>forEach\<close> and
  the \<open>catch\<close> returns the empty list.
\<close>

definition spendingStep ::
  "int \<Rightarrow> groupBy \<Rightarrow> thrown + (string \<times> real) list \<Rightarrow> transaction \<Rightarrow> thrown + (string \<times> real) list" where
  "spendingStep tz g acc t =
     (case acc of
        Inl e \<Rightarrow> Inl e
      | Inr spendingMap \<Rightarrow>
          (case getGroupKey tz (date t) g of
             Inl e \<Rightarrow> Inl e
           | Inr groupKey \<Rightarrow>
               (let current = getOr0 spendingMap groupKey
                in Inr (map_set groupKey (current + \<bar>amount t\<bar>) spendingMap))))"

definition calculateSpendingOverTime :: "int \<Rightarrow> transaction list \<Rightarrow> groupBy \<Rightarrow> spendingOverTime list" where
  "calculateSpendingOverTime tz transactions g =
     (case foldl (spendingStep tz g) (Inr []) (filter (\<lambda>t. amount t < 0) transactions) of
        Inl e \<Rightarrow> []
      | Inr spendingMap \<Rightarrow>
          (let spendingData = map (\<lambda>(d, a). \<lparr>sdate = d, samount = a\<rparr>) spendingMap
           in array_sort (\<lambda>a b. localeCompare (sdate a) (sdate b) \<le> 0) spendingData))"

section \<open>CalculationService on malformed input\<close>

text \<open>
  The same five functions, on arguments that need not have the declared types. The inputs
  covered: a \<open>transactions\<close> argument that is no array at all; an array whose elements
  are \<open>null\<close>, \<open>undefined\<close>, or objects with a date and a category and possibly no
  \<open>amount\<close>; a \<open>budget\<close> that is \<open>null\<close>, \<open>undefined\<close> or an object. A number is a
  real or \<open>NaN\<close>, with the arithmetic of JavaScript on them: \<open>undefined\<close> converts to
  \<open>NaN\<close>, \<open>NaN\<close> is not less than 0, and \<open>NaN || 0\<close> is 0.
\<close>

datatype jsnumber = Num real | NaN

fun jsAdd :: "jsnumber \<Rightarrow> jsnumber \<Rightarrow> jsnumber" where
  "jsAdd (Num a) (Num b) = Num (a + b)"
| "jsAdd a b = NaN"

fun jsSub :: "jsnumber \<Rightarrow> jsnumber \<Rightarrow> jsnumber" where
  "jsSub (Num a) (Num b) = Num (a - b)"
| "jsSub a b = NaN"

fun jsAbs :: "jsnumber \<Rightarrow> jsnumber" where
  "jsAbs (Num a) = Num \<bar>a\<bar>"
| "jsAbs NaN = NaN"

fun jsNegative :: "jsnumber \<Rightarrow> bool" where
  "jsNegative (Num a) = (a < 0)"
| "jsNegative NaN = False"

fun jsOrZero :: "jsnumber \<Rightarrow> jsnumber" where
  "jsOrZero (Num a) = (if a = 0 then Num 0 else Num a)"
| "jsOrZero NaN = Num 0"

datatype element = ENull | EUndefined | EObject string "real option" string

datatype transactionsArg = NotAnArray | Array "element list"

datatype budgetArg = BNull | BUndefined | BObject string string real

text \<open>Reading a property of \<open>null\<close> or \<open>undefined\<close> throws a \<open>TypeError\<close>.\<close>

definition TypeError :: "string \<Rightarrow> thrown" where
  "TypeError msg = ThrownError (JSError ''TypeError'' msg None)"

fun propDate :: "element \<Rightarrow> thrown + string" where
  "propDate (EObject d a c) = Inr d"
| "propDate ENull = Inl (TypeError ''Cannot read properties of null (reading 'date')'')"
| "propDate EUndefined = Inl (TypeError ''Cannot read properties of undefined (reading 'date')'')"

fun propAmount :: "element \<Rightarrow> thrown + jsnumber" where
  "propAmount (EObject d (Some a) c) = Inr (Num a)"
| "propAmount (EObject d None c) = Inr NaN"
| "propAmount ENull = Inl (TypeError ''Cannot read properties of null (reading 'amount')'')"
| "propAmount EUndefined = Inl (TypeError ''Cannot read properties of undefined (reading 'amount')'')"

fun propCategory :: "element \<Rightarrow> thrown + string" where
  "propCategory (EObject d a c) = Inr c"
| "propCategory ENull = Inl (TypeError ''Cannot read properties of null (reading 'category')'')"
| "propCategory EUndefined = Inl (TypeError ''Cannot read properties of undefined (reading 'category')'')"

fun propMonth :: "budgetArg \<Rightarrow> thrown + string" where
  "propMonth (BObject m c l) = Inr m"
| "propMonth BNull = Inl (TypeError ''Cannot read properties of null (reading 'month')'')"
| "propMonth BUndefined = Inl (TypeError ''Cannot read properties of undefined (reading 'month')'')"

fun propBudgetCategory :: "budgetArg \<Rightarrow> thrown + string" where
  "propBudgetCategory (BObject m c l) = Inr c"
| "propBudgetCategory BNull = Inl (TypeError ''Cannot read properties of null (reading 'category')'')"
| "propBudgetCategory BUndefined =
     Inl (TypeError ''Cannot read properties of undefined (reading 'category')'')"

fun propLimit :: "budgetArg \<Rightarrow> thrown + jsnumber" where
  "propLimit (BObject m c l) = Inr (Num l)"
| "propLimit BNull = Inl (TypeError ''Cannot read properties of null (reading 'limit')'')"
| "propLimit BUndefined = Inl (TypeError ''Cannot read properties of undefined (reading 'limit')'')"

text \<open>
  Sequencing of steps that may throw, and \<open>try { body } catch (error) { handler }\<close>; the
  handler may throw in its turn. \<open>logError\<close> only writes to the console.
\<close>

definition andThen :: "thrown + 'a \<Rightarrow> ('a \<Rightarrow> thrown + 'b) \<Rightarrow> thrown + 'b" where
  "andThen r f = (case r of Inl e \<Rightarrow> Inl e | Inr v \<Rightarrow> f v)"

definition tryCatch :: "thrown + 'a \<Rightarrow> (thrown \<Rightarrow> thrown + 'a) \<Rightarrow> thrown + 'a" where
  "tryCatch body handler = (case body of Inl e \<Rightarrow> handler e | Inr v \<Rightarrow> Inr v)"

definition requireArray :: "transactionsArg \<Rightarrow> thrown + element list" where
  "requireArray transactions =
     (case transactions of
        NotAnArray \<Rightarrow> Inl (ThrownError (JSError ''Error'' ''Transactions must be an array'' None))
      | Array xs \<Rightarrow> Inr xs)"

text \<open>\<open>filter\<close> and \<open>reduce\<close> (also \<open>forEach\<close> over a map under construction) with a callback that may throw.\<close>

fun filterThrowing :: "(element \<Rightarrow> thrown + bool) \<Rightarrow> element list \<Rightarrow> thrown + element list" where
  "filterThrowing p [] = Inr []"
| "filterThrowing p (x # xs) =
     andThen (p x) (\<lambda>keep. andThen (filterThrowing p xs) (\<lambda>rest. Inr (if keep then x # rest else rest)))"

fun reduceThrowing :: "('b \<Rightarrow> element \<Rightarrow> thrown + 'b) \<Rightarrow> 'b \<Rightarrow> element list \<Rightarrow> thrown + 'b" where
  "reduceThrowing f acc [] = Inr acc"
| "reduceThrowing f acc (x # xs) = andThen (f acc x) (\<lambda>acc'. reduceThrowing f acc' xs)"

definition addAmount :: "jsnumber \<Rightarrow> element \<Rightarrow> thrown + jsnumber" where
  "addAmount acc t = andThen (propAmount t) (\<lambda>a. Inr (jsAdd acc a))"

definition calculateTotalBalance_dyn :: "transactionsArg \<Rightarrow> thrown + jsnumber" where
  "calculateTotalBalance_dyn transactions =
     tryCatch
       (andThen (requireArray transactions) (\<lambda>xs. reduceThrowing addAmount (Num 0) xs))
       (\<lambda>error. Inr (Num 0))"

definition inMonthExpense :: "string \<Rightarrow> element \<Rightarrow> thrown + bool" where
  "inMonthExpense m t =
     andThen (propDate t) (\<lambda>d.
       if startsWith d m then andThen (propAmount t) (\<lambda>a. Inr (jsNegative a)) else Inr False)"

definition calculateMonthlySpending_dyn :: "transactionsArg \<Rightarrow> string \<Rightarrow> thrown + jsnumber" where
  "calculateMonthlySpending_dyn transactions m =
     tryCatch
       (andThen (requireArray transactions) (\<lambda>xs.
          andThen (filterThrowing (inMonthExpense m) xs) (\<lambda>monthTransactions.
            andThen (reduceThrowing addAmount (Num 0) monthTransactions) (\<lambda>s. Inr (jsAbs s)))))
       (\<lambda>error. Inr (Num 0))"

definition isExpense :: "element \<Rightarrow> thrown + bool" where
  "isExpense t = andThen (propAmount t) (\<lambda>a. Inr (jsNegative a))"

fun map_set_dyn :: "string \<Rightarrow> jsnumber \<Rightarrow> (string \<times> jsnumber) list \<Rightarrow> (string \<times> jsnumber) list" where
  "map_set_dyn k v [] = [(k, v)]"
| "map_set_dyn k v (p # ps) = (if fst p = k then (k, v) # ps else p # map_set_dyn k v ps)"

definition getOr0_dyn :: "(string \<times> jsnumber) list \<Rightarrow> string \<Rightarrow> jsnumber" where
  "getOr0_dyn m k = (case map_of m k of None \<Rightarrow> Num 0 | Some v \<Rightarrow> jsOrZero v)"

definition categoryStep_dyn :: "(string \<times> jsnumber) list \<Rightarrow> element \<Rightarrow> thrown + (string \<times> jsnumber) list" where
  "categoryStep_dyn categoryMap t =
     andThen (propCategory t) (\<lambda>c.
       let current = getOr0_dyn categoryMap c
       in andThen (propAmount t) (\<lambda>a. Inr (map_set_dyn c (jsAdd current (jsAbs a)) categoryMap)))"

text \<open>A comparator result \<open>NaN\<close> counts as 0.\<close>

definition compareLE0 :: "jsnumber \<Rightarrow> bool" where
  "compareLE0 v = (case v of NaN \<Rightarrow> True | Num r \<Rightarrow> r \<le> 0)"

definition calculateCategoryTotals_dyn :: "transactionsArg \<Rightarrow> thrown + (string \<times> jsnumber) list" where
  "calculateCategoryTotals_dyn transactions =
     tryCatch
       (andThen (requireArray transactions) (\<lambda>xs.
          andThen (filterThrowing isExpense xs) (\<lambda>expenses.
            andThen (reduceThrowing categoryStep_dyn [] expenses) (\<lambda>categoryMap.
              Inr (array_sort (\<lambda>a b. compareLE0 (jsSub (snd b) (snd a))) categoryMap)))))
       (\<lambda>error. Inr [])"

definition spendingStep_dyn ::
  "int \<Rightarrow> groupBy \<Rightarrow> (string \<times> jsnumber) list \<Rightarrow> element \<Rightarrow> thrown + (string \<times> jsnumber) list" where
  "spendingStep_dyn tz g spendingMap t =
     andThen (propDate t) (\<lambda>d.
       andThen (getGroupKey tz d g) (\<lambda>groupKey.
         let current = getOr0_dyn spendingMap groupKey
         in andThen (propAmount t) (\<lambda>a.
              Inr (map_set_dyn groupKey (jsAdd current (jsAbs a)) spendingMap))))"

definition calculateSpendingOverTime_dyn ::
  "int \<Rightarrow> transactionsArg \<Rightarrow> groupBy \<Rightarrow> thrown + (string \<times> jsnumber) list" where
  "calculateSpendingOverTime_dyn tz transactions g =
     tryCatch
       (andThen (requireArray transactions) (\<lambda>xs.
          andThen (filterThrowing isExpense xs) (\<lambda>expenses.
            andThen (reduceThrowing (spendingStep_dyn tz g) [] expenses) (\<lambda>spendingMap.
              Inr (array_sort (\<lambda>a b. localeCompare (fst a) (fst b) \<le> 0) spendingMap)))))
       (\<lambda>error. Inr [])"

definition relevantToBudget :: "budgetArg \<Rightarrow> element \<Rightarrow> thrown + bool" where
  "relevantToBudget b t =
     andThen (propDate t) (\<lambda>d.
       andThen (propMonth b) (\<lambda>m.
         if startsWith d m
         then andThen (propCategory t) (\<lambda>c.
                andThen (propBudgetCategory b) (\<lambda>bc.
                  if c = bc then andThen (propAmount t) (\<lambda>a. Inr (jsNegative a)) else Inr False))
         else Inr False))"

definition calculateBudgetRemaining_dyn :: "budgetArg \<Rightarrow> transactionsArg \<Rightarrow> thrown + jsnumber" where
  "calculateBudgetRemaining_dyn b transactions =
     tryCatch
       (andThen (requireArray transactions) (\<lambda>xs.
          andThen (filterThrowing (relevantToBudget b) xs) (\<lambda>relevantTransactions.
            andThen (reduceThrowing addAmount (Num 0) relevantTransactions) (\<lambda>s.
              let spent = jsAbs s
              in andThen (propLimit b) (\<lambda>l. Inr (jsSub l spent))))))
       (\<lambda>error. propLimit b)"


text \<open>
  The malformed inputs on which evaluation throws, and the embedding of well-typed
  transactions and budgets into the untyped arguments.
\<close>

definition nullish :: "element \<Rightarrow> bool" where
  "nullish x = (x = ENull \<or> x = EUndefined)"

definition asElement :: "transaction \<Rightarrow> element" where
  "asElement t = EObject (date t) (Some (amount t)) (category t)"

definition asBudgetArg :: "budget \<Rightarrow> budgetArg" where
  "asBudgetArg b = BObject (month b) (bcategory b) (limit b)"

definition malformed :: "transactionsArg \<Rightarrow> bool" where
  "malformed ts = (case ts of NotAnArray \<Rightarrow> True | Array xs \<Rightarrow> list_ex nullish xs)"

definition numEntry :: "string \<times> real \<Rightarrow> string \<times> jsnumber" where
  "numEntry p = (fst p, Num (snd p))"

section \<open>Budget remaining\<close>





section \<open>Category totals\<close>



lemma set_sort_insert: "set (sort_insert precedes x ys) = insert x (set ys)"
  by (induction ys) auto

lemma sorted_sort_insert:
  assumes total_rel: "\<And>a b. precedes a b \<or> precedes b a"
    and trans_rel: "\<And>a b c. precedes a b \<Longrightarrow> precedes b c \<Longrightarrow> precedes a c"
  shows "sorted_wrt precedes ys \<Longrightarrow> sorted_wrt precedes (sort_insert precedes x ys)"
proof (induction ys)
  case Nil
  show ?case by simp
next
  case (Cons y ys)
  show ?case
  proof (cases "precedes x y")
    case True
    have "\<forall>z \<in> set ys. precedes x z"
      using Cons.prems True trans_rel by auto
    with True Cons.prems show ?thesis by simp
  next
    case False
    then have "precedes y x" using total_rel by blast
    with False Cons show ?thesis by (auto simp: set_sort_insert)
  qed
qed

lemma sorted_array_sort:
  assumes "\<And>a b. precedes a b \<or> precedes b a"
    and "\<And>a b c. precedes a b \<Longrightarrow> precedes b c \<Longrightarrow> precedes a c"
  shows "sorted_wrt precedes (array_sort precedes xs)"
  using assms by (induction xs) (simp_all add: sorted_sort_insert)











section \<open>Retry policy\<close>

lemma lowerChar_not_capital: "\<not> (65 \<le> (of_char (lowerChar c) :: nat) \<and> (of_char (lowerChar c) :: nat) \<le> 90)"
  by (auto simp: lowerChar_def Let_def)

lemma includes_head: "includes_str s (p # ps) \<Longrightarrow> p \<in> set s"
proof (induction s)
  case Nil
  then show ?case by simp
next
  case (Cons c s)
  then show ?case by (cases "c = p") auto
qed

lemma capital_never_included:
  assumes "65 \<le> (of_char p :: nat)" and "(of_char p :: nat) \<le> 90"
  shows "\<not> includes_str (toLowerCase s) (p # ps)"
proof
  assume "includes_str (toLowerCase s) (p # ps)"
  then have "p \<in> set (toLowerCase s)" by (rule includes_head)
  then obtain c where "p = lowerChar c" by (auto simp: toLowerCase_def)
  with assms lowerChar_not_capital [of c] show False by simp
qed

text \<open>
  The two entries of the word list that are written in capitals can never occur in a
  message that has been put in lower case: the classifier is the test for the other four.
\<close>

lemma isTransientError_words:
  "isTransientError e \<longleftrightarrow>
     includes_str (toLowerCase (emessage e)) ''network''
     \<or> includes_str (toLowerCase (emessage e)) ''timeout''
     \<or> includes_str (toLowerCase (emessage e)) ''temporarily unavailable''
     \<or> includes_str (toLowerCase (emessage e)) ''connection''"
proof -
  have "\<not> includes_str (toLowerCase (emessage e)) ''ECONNREFUSED''"
    by (rule capital_never_included) simp_all
  moreover have "\<not> includes_str (toLowerCase (emessage e)) ''ETIMEDOUT''"
    by (rule capital_never_included) simp_all
  ultimately show ?thesis
    by (simp add: isTransientError_def transientMessages_def Let_def)
qed

declare retryLoop.simps [simp del]

lemma fn_at: "fn (stateAt fn s k) = (attemptResult fn s k, stateAt fn s (Suc k))"
  by (simp add: attemptResult_def)

lemma backoff_step: "a < k \<Longrightarrow> backoff d a k = d * 2 ^ a # backoff d (Suc a) k"
  by (simp add: backoff_def upt_conv_Cons)

lemma retryLoop_stop:
  assumes "int k \<le> maxRetries"
    and "case attemptResult fn s k of
           Inl e \<Rightarrow> \<not> isTransientError (toError e) \<or> int k = maxRetries
         | Inr v \<Rightarrow> True"
  shows "retryLoop fn maxRetries d k le (stateAt fn s k) =
           (finalOutcome (attemptResult fn s k), stateAt fn s (Suc k), [])"
  using assms
  by (subst retryLoop.simps)
     (auto simp: fn_at finalOutcome_def Let_def simp del: stateAt.simps split: sum.splits)

lemma retryLoop_retry:
  assumes "int a < maxRetries" and "failsTransiently fn s a"
  shows "retryLoop fn maxRetries d a le (stateAt fn s a) =
           (let (r, s'', waits) =
                  retryLoop fn maxRetries d (Suc a)
                    (Some (toError (projl (attemptResult fn s a)))) (stateAt fn s (Suc a))
            in (r, s'', d * 2 ^ a # waits))"
  using assms
  by (subst retryLoop.simps)
     (auto simp: fn_at failsTransiently_def Let_def simp del: stateAt.simps split: sum.splits)

lemma retryLoop_run:
  assumes "a \<le> k" and "int k \<le> maxRetries"
    and "\<forall>i. a \<le> i \<and> i < k \<longrightarrow> failsTransiently fn s i"
    and "case attemptResult fn s k of
           Inl e \<Rightarrow> \<not> isTransientError (toError e) \<or> int k = maxRetries
         | Inr v \<Rightarrow> True"
  shows "retryLoop fn maxRetries d a le (stateAt fn s a) =
           (finalOutcome (attemptResult fn s k), stateAt fn s (Suc k), backoff d a k)"
  using assms(1,3)
proof (induction "k - a" arbitrary: a le)
  case 0
  then have "a = k" by simp
  then show ?case using retryLoop_stop [OF assms(2,4)] by (simp add: backoff_def del: stateAt.simps)
next
  case (Suc n)
  then have lt: "a < k" by simp
  have tr: "failsTransiently fn s a" using Suc.prems lt by simp
  have am: "int a < maxRetries" using lt assms(2) by simp
  have ih: "retryLoop fn maxRetries d (Suc a) le' (stateAt fn s (Suc a)) =
           (finalOutcome (attemptResult fn s k), stateAt fn s (Suc k), backoff d (Suc a) k)" for le'
    using Suc.hyps(1) [of "Suc a" le'] Suc.hyps(2) Suc.prems lt by simp
  show ?case
    by (simp add: retryLoop_retry [OF am tr] ih backoff_step [OF lt] del: stateAt.simps)
qed

text \<open>
  C8, as the code has it. Let the attempts 0 to \<open>k - 1\<close> of \<open>fn\<close> fail with transient
  errors, with \<open>k \<le> maxRetries\<close>. Then \<open>retryWithBackoff\<close> has called \<open>fn\<close> exactly
  \<open>k + 1\<close> times and has waited \<open>initialDelay * 2 ^ i\<close> after each failed attempt \<open>i < k\<close>
  and at no other time, and: if attempt \<open>k\<close> returns, that value is returned; if attempt
  \<open>k\<close> fails and what it threw is not transient, or if \<open>k = maxRetries\<close> and attempt \<open>k\<close>
  fails, then \<open>retryWithBackoff\<close> throws \<open>toError e\<close> for the \<open>e\<close> that attempt \<open>k\<close> threw:
  the Error object itself when \<open>e\<close> is one, and otherwise a new Error whose message is
  \<open>String(e)\<close>. Whether a failure is transient is decided on \<open>toError e\<close> as well.
\<close>

theorem retryWithBackoff_policy:
  assumes "int k \<le> maxRetries" and "\<forall>i < k. failsTransiently fn s i"
  shows "(attemptResult fn s k = Inr v \<longrightarrow>
            retryWithBackoff fn maxRetries initialDelay s =
              (Inr v, stateAt fn s (Suc k), backoff initialDelay 0 k))
       \<and> (attemptResult fn s k = Inl e \<and> \<not> isTransientError (toError e) \<longrightarrow>
            retryWithBackoff fn maxRetries initialDelay s =
              (Inl (ThrownError (toError e)), stateAt fn s (Suc k), backoff initialDelay 0 k))
       \<and> (attemptResult fn s k = Inl e \<and> int k = maxRetries \<longrightarrow>
            retryWithBackoff fn maxRetries initialDelay s =
              (Inl (ThrownError (toError e)), stateAt fn s (Suc k), backoff initialDelay 0 k))"
  using retryLoop_run [of 0 k maxRetries fn s initialDelay None] assms
  by (auto simp: retryWithBackoff_def finalOutcome_def simp del: stateAt.simps(2))

theorem retryWithBackoff_policy_witness:
  "retryWithBackoff flakyThenOk 3 100 0 = (Inr ''done'', 3, [100, 200])
   \<and> retryWithBackoff flakyThenInvalid 3 100 0 =
       (Inl (ThrownError (JSError ''ValidationError'' ''Limit is required'' None)), 2, [100])
   \<and> retryWithBackoff alwaysDown 2 100 0 =
       (Inl (ThrownError (JSError ''Error'' ''timeout #II'' None)), 3, [100, 200])"
proof -
  have t1: "isTransientError (JSError ''Error'' ''Network timeout'' None)" by code_simp
  have t2: "isTransientError (JSError ''Error'' ''Connection lost'' None)" by code_simp
  have t3: "\<not> isTransientError (JSError ''ValidationError'' ''Limit is required'' None)" by code_simp
  have t4: "isTransientError (JSError ''Error'' ''timeout #'' None)" by code_simp
  have t5: "isTransientError (JSError ''Error'' ''timeout #I'' None)" by code_simp
  have bo2: "backoff 100 0 2 = [100, 200]"
    by (simp add: backoff_def upt_rec numeral_2_eq_2)
  have bo1: "backoff 100 0 1 = [100]"
    by (simp add: backoff_def)
  have s1: "stateAt flakyThenOk 0 (Suc (Suc (Suc 0))) = 3"
    by (simp add: flakyThenOk_def)
  have h1: "\<forall>i<2. failsTransiently flakyThenOk 0 i"
    using t1 by (auto simp: failsTransiently_def attemptResult_def flakyThenOk_def less_Suc_eq numeral_2_eq_2)
  have r1: "attemptResult flakyThenOk 0 2 = Inr ''done''"
    by (simp add: attemptResult_def flakyThenOk_def numeral_2_eq_2)
  have a: "retryWithBackoff flakyThenOk 3 100 0 = (Inr ''done'', 3, [100, 200])"
    using retryWithBackoff_policy [where k = 2 and maxRetries = 3 and fn = flakyThenOk and s = 0
            and v = "''done''" and initialDelay = 100] h1 r1 bo2 s1
    by (simp add: numeral_2_eq_2 del: stateAt.simps)
  have s2: "stateAt flakyThenInvalid 0 (Suc (Suc 0)) = 2"
    by (simp add: flakyThenInvalid_def)
  have h2: "\<forall>i<1. failsTransiently flakyThenInvalid 0 i"
    using t2 by (auto simp: failsTransiently_def attemptResult_def flakyThenInvalid_def)
  have r2: "attemptResult flakyThenInvalid 0 1 =
              Inl (ThrownError (JSError ''ValidationError'' ''Limit is required'' None))"
    by (simp add: attemptResult_def flakyThenInvalid_def)
  have b: "retryWithBackoff flakyThenInvalid 3 100 0 =
       (Inl (ThrownError (JSError ''ValidationError'' ''Limit is required'' None)), 2, [100])"
    using retryWithBackoff_policy [where k = 1 and maxRetries = 3 and fn = flakyThenInvalid and s = 0
            and e = "ThrownError (JSError ''ValidationError'' ''Limit is required'' None)"
            and initialDelay = 100] h2 r2 bo1 s2 t3
    by (simp del: stateAt.simps)
  have s3: "stateAt alwaysDown 0 (Suc (Suc (Suc 0))) = 3"
    by (simp add: alwaysDown_def)
  have h3: "\<forall>i<2. failsTransiently alwaysDown 0 i"
    using t4 t5 by (auto simp: failsTransiently_def attemptResult_def alwaysDown_def less_Suc_eq numeral_2_eq_2)
  have r3: "attemptResult alwaysDown 0 2 = Inl (ThrownError (JSError ''Error'' ''timeout #II'' None))"
    by (simp add: attemptResult_def alwaysDown_def numeral_2_eq_2)
  have c: "retryWithBackoff alwaysDown 2 100 0 =
       (Inl (ThrownError (JSError ''Error'' ''timeout #II'' None)), 3, [100, 200])"
    using retryWithBackoff_policy [where k = 2 and maxRetries = 2 and fn = alwaysDown and s = 0
            and e = "ThrownError (JSError ''Error'' ''timeout #II'' None)"
            and initialDelay = 100] h3 r3 bo2 s3
    by (simp add: numeral_2_eq_2 del: stateAt.simps)
  from a b c show ?thesis by blast
qed

text \<open>
  The claim as the specification words it has the last error itself thrown again, not
  replaced. A thunk that rejects with a string refutes it, both when the attempts are
  exhausted and when the failure is not transient: what \<open>retryWithBackoff\<close> throws is an
  Error object made from the string, not the string.
\<close>

theorem retryWithBackoff_non_error_counterexample:
  "attemptResult (rejectsWithString ''timeout'') 0 1 = Inl (ThrownValue ''timeout'')
   \<and> retryWithBackoff (rejectsWithString ''timeout'') 1 100 0 =
       (Inl (ThrownError (JSError ''Error'' ''timeout'' None)), 2, [100])
   \<and> fst (retryWithBackoff (rejectsWithString ''timeout'') 1 100 0) \<noteq>
       attemptResult (rejectsWithString ''timeout'') 0 1
   \<and> attemptResult (rejectsWithString ''boom'') 0 0 = Inl (ThrownValue ''boom'')
   \<and> retryWithBackoff (rejectsWithString ''boom'') 3 100 0 =
       (Inl (ThrownError (JSError ''Error'' ''boom'' None)), 1, [])
   \<and> fst (retryWithBackoff (rejectsWithString ''boom'') 3 100 0) \<noteq>
       attemptResult (rejectsWithString ''boom'') 0 0"
proof -
  have t: "isTransientError (JSError ''Error'' ''timeout'' None)" by code_simp
  have n: "\<not> isTransientError (JSError ''Error'' ''boom'' None)" by code_simp
  have a0: "attemptResult (rejectsWithString ''timeout'') 0 1 = Inl (ThrownValue ''timeout'')"
    by (simp add: attemptResult_def rejectsWithString_def)
  have a1: "retryLoop (rejectsWithString ''timeout'') 1 100 (Suc 0)
              (Some (JSError ''Error'' ''timeout'' None)) (Suc 0) =
            (Inl (ThrownError (JSError ''Error'' ''timeout'' None)), 2, [])"
    by (subst retryLoop.simps) (simp add: rejectsWithString_def t)
  have a2: "retryWithBackoff (rejectsWithString ''timeout'') 1 100 0 =
       (Inl (ThrownError (JSError ''Error'' ''timeout'' None)), 2, [100])"
    unfolding retryWithBackoff_def
    by (subst retryLoop.simps) (simp add: t a1, simp add: rejectsWithString_def t a1)
  have b0: "attemptResult (rejectsWithString ''boom'') 0 0 = Inl (ThrownValue ''boom'')"
    by (simp add: attemptResult_def rejectsWithString_def)
  have b2: "retryWithBackoff (rejectsWithString ''boom'') 3 100 0 =
       (Inl (ThrownError (JSError ''Error'' ''boom'' None)), 1, [])"
    unfolding retryWithBackoff_def
    by (subst retryLoop.simps) (simp add: rejectsWithString_def n)
  show ?thesis
    unfolding a0 a2 b0 b2 by simp
qed

lemma retryWithBackoff_negative:
  "maxRetries < 0 \<Longrightarrow> retryWithBackoff fn maxRetries d s = (Inl (ThrownValue ''undefined''), s, [])"
  unfolding retryWithBackoff_def by (subst retryLoop.simps) simp

section \<open>Storage adapter\<close>

lemma retry_success:
  "0 \<le> m \<Longrightarrow> fn s = (Inr v, s') \<Longrightarrow> retryWithBackoff fn m d s = (Inr v, s', [])"
  unfolding retryWithBackoff_def by (subst retryLoop.simps) simp

lemma retry_fail_fast:
  "0 \<le> m \<Longrightarrow> fn s = (Inl e, s') \<Longrightarrow> \<not> isTransientError (toError e) \<Longrightarrow>
   retryWithBackoff fn m d s = (Inl (ThrownError (toError e)), s', [])"
  unfolding retryWithBackoff_def by (subst retryLoop.simps) simp

lemma stateAt_stuck: "fn s = (r, s) \<Longrightarrow> stateAt fn s k = s"
  by (induction k) simp_all

lemma retry_fail_stuck:
  assumes "0 \<le> m" and "fn s = (Inl e, s)" and "isTransientError (toError e)"
  shows "retryWithBackoff fn m d s = (Inl (ThrownError (toError e)), s, backoff d 0 (nat m))"
proof -
  have st: "stateAt fn s k = s" for k using assms(2) by (rule stateAt_stuck)
  have ar: "attemptResult fn s k = Inl e" for k by (simp add: attemptResult_def st assms(2))
  have "retryLoop fn m d 0 None (stateAt fn s 0) =
          (finalOutcome (attemptResult fn s (nat m)), stateAt fn s (Suc (nat m)), backoff d 0 (nat m))"
    using assms(1,3) by (intro retryLoop_run) (simp_all add: ar failsTransiently_def)
  then show ?thesis
    by (simp only: st ar retryWithBackoff_def finalOutcome_def sum.case)
qed

lemma indexMessage_terminal: "\<not> isTransientError (ConstraintError indexMessage)"
  by code_simp

lemma keyMessage_terminal:
  "\<not> isTransientError (ConstraintError ''Key already exists in the object store.'')"
  by code_simp

lemma keyOf_upd_id [simp]: "keyOf (r(''id'' \<mapsto> VStr k)) = Some k"
  by (simp add: keyOf_def)

lemma delete_result: "delete ident st = (Inr (), db_delete st ident, [])"
  by (simp add: delete_def retry_success)

lemma getById_result: "getById ident st = (Inr (db_get st ident), st, [])"
  by (simp add: getById_def retry_success)

lemma getAll_result: "getAll st = (Inr (db_getAll st), st, [])"
  by (simp add: getAll_def retry_success)

lemma update_result:
  "update storeName ident item st =
     (case db_get st ident of
        None \<Rightarrow>
          (Inl (ThrownError (notFound ident)), st,
           if isTransientError (notFound ident) then [100, 200] else [])
      | Some existing \<Rightarrow>
          (let updated = (existing ++ item)(''id'' \<mapsto> VStr ident)
           in if indexConflict storeName updated st
              then (Inl (ThrownError (StorageError (''Failed to update item: '' @ indexMessage)
                      (Some (ConstraintError indexMessage)))), st, [])
              else (Inr (), put_record updated st, [])))"
proof (cases "db_get st ident")
  case None
  then have fn: "update_fn storeName ident item st = (Inl (ThrownError (notFound ident)), st)"
    by (simp add: update_fn_def notFound_def)
  have nm: "ename (notFound ident) = ''StorageError''"
    by (simp add: notFound_def StorageError_def)
  have bo: "backoff 100 0 (nat 2) = [100, 200]"
    by (simp add: backoff_def upt_rec numeral_2_eq_2)
  show ?thesis
  proof (cases "isTransientError (notFound ident)")
    case True
    then show ?thesis
      using retry_fail_stuck [of 2 "update_fn storeName ident item" st "ThrownError (notFound ident)" 100] fn None nm bo
      by (simp add: update_def)
  next
    case False
    then show ?thesis
      using retry_fail_fast [of 2 "update_fn storeName ident item" st "ThrownError (notFound ident)" st 100] fn None nm
      by (simp add: update_def)
  qed
next
  case (Some existing)
  let ?updated = "(existing ++ item)(''id'' \<mapsto> VStr ident)"
  show ?thesis
  proof (cases "indexConflict storeName ?updated st")
    case True
    then have fn: "update_fn storeName ident item st = (Inl (ThrownError (ConstraintError indexMessage)), st)"
      using Some by (simp add: update_fn_def db_put_def indexMessage_def)
    have nm: "ename (ConstraintError indexMessage) \<noteq> ''StorageError''"
      by (simp add: ConstraintError_def)
    have msg: "emessage (ConstraintError indexMessage) = indexMessage"
      by (simp add: ConstraintError_def)
    show ?thesis
      using retry_fail_fast [of 2 "update_fn storeName ident item" st
               "ThrownError (ConstraintError indexMessage)" st 100] fn Some True nm msg
            indexMessage_terminal
      by (simp add: update_def)
  next
    case False
    then have fn: "update_fn storeName ident item st = (Inr (), put_record ?updated st)"
      using Some by (simp add: update_fn_def db_put_def)
    show ?thesis
      using retry_success [of 2 "update_fn storeName ident item" st "()" _ 100] fn Some False
      by (simp add: update_def)
  qed
qed


lemma add_result:
  "add storeName rnd item st =
     (let ident = generateUUID rnd; itemWithId = item(''id'' \<mapsto> VStr ident)
      in if db_get st ident \<noteq> None
         then (Inl (ThrownError (StorageError (''Failed to add item: '' @ keyMessage)
                 (Some (ConstraintError keyMessage)))), st, [])
         else if indexConflict storeName itemWithId st
         then (Inl (ThrownError (StorageError (''Failed to add item: '' @ indexMessage)
                 (Some (ConstraintError indexMessage)))), st, [])
         else (Inr ident, st @ [itemWithId], []))"
proof -
  let ?id = "generateUUID rnd"
  let ?r = "item(''id'' \<mapsto> VStr ?id)"
  let ?fn = "\<lambda>s. case db_add storeName ?r s of
                      Inl e \<Rightarrow> (Inl (ThrownError e), s)
                    | Inr s' \<Rightarrow> (Inr (), s')"
  have nq: "ename (ConstraintError m) \<noteq> ''QuotaExceededError''" for m
    by (simp add: ConstraintError_def)
  have msg: "emessage (ConstraintError m) = m" for m
    by (simp add: ConstraintError_def)
  consider (dup) "db_get st ?id \<noteq> None"
    | (idx) "db_get st ?id = None" "indexConflict storeName ?r st"
    | (ok) "db_get st ?id = None" "\<not> indexConflict storeName ?r st"
    by blast
  then show ?thesis
  proof cases
    case dup
    then have fn: "?fn st = (Inl (ThrownError (ConstraintError keyMessage)), st)"
      by (simp add: db_add_def keyMessage_def)
    have "retryWithBackoff ?fn 2 100 st = (Inl (ThrownError (ConstraintError keyMessage)), st, [])"
      using retry_fail_fast [of 2 ?fn st "ThrownError (ConstraintError keyMessage)" st 100] fn
            keyMessage_terminal
      by (simp add: keyMessage_def)
    then show ?thesis using dup nq msg by (simp add: add_def Let_def)
  next
    case idx
    then have fn: "?fn st = (Inl (ThrownError (ConstraintError indexMessage)), st)"
      by (simp add: db_add_def indexMessage_def)
    have "retryWithBackoff ?fn 2 100 st = (Inl (ThrownError (ConstraintError indexMessage)), st, [])"
      using retry_fail_fast [of 2 ?fn st "ThrownError (ConstraintError indexMessage)" st 100] fn
            indexMessage_terminal
      by simp
    then show ?thesis using idx nq msg by (simp add: add_def Let_def)
  next
    case ok
    then have fn: "?fn st = (Inr (), st @ [?r])"
      by (simp add: db_add_def)
    have "retryWithBackoff ?fn 2 100 st = (Inr (), st @ [?r], [])"
      using retry_success [of 2 ?fn st "()" "st @ [?r]" 100] fn by simp
    then show ?thesis using ok by (simp add: add_def Let_def)
  qed
qed

lemma db_get_None_iff: "db_get st k = None \<longleftrightarrow> (\<forall>x \<in> set st. keyOf x \<noteq> Some k)"
  by (auto simp: db_get_def find_None_iff)

lemma db_get_Some_key: "db_get st k = Some r \<Longrightarrow> keyOf r = Some k"
  by (auto simp: db_get_def find_Some_iff)

lemma db_get_append_new:
  "db_get st k = None \<Longrightarrow> keyOf r = Some k \<Longrightarrow> db_get (st @ [r]) k = Some r"
  by (induction st) (auto simp: db_get_def)

lemma db_get_put_same:
  "keyOf r = Some k \<Longrightarrow> db_get (put_record r st) k = Some r"
  by (induction st) (auto simp: db_get_def)

lemma db_get_put_other:
  "keyOf r = Some k \<Longrightarrow> j \<noteq> k \<Longrightarrow> db_get (put_record r st) j = db_get st j"
  by (induction st) (auto simp: db_get_def)

lemma others_put_record:
  "keyOf r = Some k \<Longrightarrow>
   filter (\<lambda>x. keyOf x \<noteq> Some k) (put_record r st) = filter (\<lambda>x. keyOf x \<noteq> Some k) st"
  by (induction st) auto

lemma keys_put_record:
  "keyOf r = Some k \<Longrightarrow> db_get st k \<noteq> None \<Longrightarrow> map keyOf (put_record r st) = map keyOf st"
  by (induction st) (auto simp: db_get_def)

lemma db_delete_absent: "db_get st k = None \<Longrightarrow> db_delete st k = st"
  by (simp add: db_delete_def db_get_None_iff)

lemma keyOf_id_field: "keyOf r = Some k \<Longrightarrow> r ''id'' = Some (VStr k)"
  by (auto simp: keyOf_def split: option.splits jsval.splits)

text \<open>
  C5. For every identifier that is not present in the store, \<open>update\<close> fails with the
  StorageError whose message says the item with that identifier was not found and leaves
  the store as it was, and \<open>delete\<close> succeeds and leaves the store as it was.
\<close>

theorem update_missing_fails_delete_missing_succeeds:
  assumes "db_get st ident = None"
  shows "fst (update storeName ident item st) =
           Inl (ThrownError (StorageError (''Item with id '' @ ident @ '' not found'') None))
       \<and> storeAfter (update storeName ident item st) = st
       \<and> fst (delete ident st) = Inr ()
       \<and> storeAfter (delete ident st) = st"
  using assms
  by (simp add: update_result delete_result storeAfter_def notFound_def db_delete_absent)

theorem update_missing_fails_delete_missing_succeeds_witness:
  "db_get [[''id'' \<mapsto> VStr ''a'', ''amount'' \<mapsto> VNum 5]] ''timeout-7'' = None
   \<and> update Transactions ''timeout-7'' [''amount'' \<mapsto> VNum 1]
        [[''id'' \<mapsto> VStr ''a'', ''amount'' \<mapsto> VNum 5]]
     = (Inl (ThrownError (StorageError ''Item with id timeout-7 not found'' None)),
        [[''id'' \<mapsto> VStr ''a'', ''amount'' \<mapsto> VNum 5]], [100, 200])
   \<and> delete ''timeout-7'' [[''id'' \<mapsto> VStr ''a'', ''amount'' \<mapsto> VNum 5]]
     = (Inr (), [[''id'' \<mapsto> VStr ''a'', ''amount'' \<mapsto> VNum 5]], [])"
proof -
  let ?st = "[[''id'' \<mapsto> VStr ''a'', ''amount'' \<mapsto> VNum 5]]"
  have absent: "db_get ?st ''timeout-7'' = None"
    by (simp add: db_get_def keyOf_def)
  have tr: "isTransientError (notFound ''timeout-7'')"
    by code_simp
  note spec = update_missing_fails_delete_missing_succeeds
                [OF absent, of Transactions "[''amount'' \<mapsto> VNum 1]"]
  have u: "update Transactions ''timeout-7'' [''amount'' \<mapsto> VNum 1] ?st
     = (Inl (ThrownError (StorageError ''Item with id timeout-7 not found'' None)), ?st, [100, 200])"
    using spec tr absent by (simp add: update_result storeAfter_def notFound_def)
  have d: "delete ''timeout-7'' ?st = (Inr (), ?st, [])"
    using spec by (simp add: delete_result storeAfter_def)
  from absent u d show ?thesis by blast
qed


text \<open>
  C6. Round trip: when \<open>add\<close> returns an identifier, it is the generated one, and
  \<open>getById\<close> with it, on the store \<open>add\<close> left, returns the input record with the
  property \<open>id\<close> set to that identifier: every other property is read as in the input.
  \<open>add\<close> does return when the generated identifier is not yet a key of the store and the
  record does not break the unique index.
\<close>

theorem add_getById_roundtrip:
  "(fst (add storeName rnd item st) = Inr i \<longrightarrow>
      i = generateUUID rnd \<and>
      fst (getById i (storeAfter (add storeName rnd item st))) =
        Inr (Some (item(''id'' \<mapsto> VStr i))))
   \<and> (db_get st (generateUUID rnd) = None \<and>
      \<not> indexConflict storeName (item(''id'' \<mapsto> VStr (generateUUID rnd))) st \<longrightarrow>
      fst (add storeName rnd item st) = Inr (generateUUID rnd))"
proof (intro conjI impI)
  assume ok: "fst (add storeName rnd item st) = Inr i"
  then have fresh: "db_get st (generateUUID rnd) = None"
    and noc: "\<not> indexConflict storeName (item(''id'' \<mapsto> VStr (generateUUID rnd))) st"
    by (auto simp: add_result Let_def split: if_splits)
  from ok fresh noc show i: "i = generateUUID rnd"
    by (simp add: add_result Let_def)
  have "storeAfter (add storeName rnd item st) = st @ [item(''id'' \<mapsto> VStr i)]"
    using fresh noc i by (simp add: add_result Let_def storeAfter_def)
  then show "fst (getById i (storeAfter (add storeName rnd item st))) =
        Inr (Some (item(''id'' \<mapsto> VStr i)))"
    using fresh i by (simp add: getById_result db_get_append_new)
next
  assume "db_get st (generateUUID rnd) = None \<and>
      \<not> indexConflict storeName (item(''id'' \<mapsto> VStr (generateUUID rnd))) st"
  then show "fst (add storeName rnd item st) = Inr (generateUUID rnd)"
    by (simp add: add_result Let_def)
qed

theorem add_getById_roundtrip_witness:
  "fst (add Budgets (\<lambda>i. i)
          [''month'' \<mapsto> VStr ''2025-01'', ''category'' \<mapsto> VStr ''Food'', ''limit'' \<mapsto> VNum 400]
          [[''id'' \<mapsto> VStr ''a'', ''month'' \<mapsto> VStr ''2025-01'', ''category'' \<mapsto> VStr ''Rent'']])
     = Inr ''01234567-89ab-4cde-b012-3456789abcde''
   \<and> fst (getById ''01234567-89ab-4cde-b012-3456789abcde''
        (storeAfter (add Budgets (\<lambda>i. i)
          [''month'' \<mapsto> VStr ''2025-01'', ''category'' \<mapsto> VStr ''Food'', ''limit'' \<mapsto> VNum 400]
          [[''id'' \<mapsto> VStr ''a'', ''month'' \<mapsto> VStr ''2025-01'', ''category'' \<mapsto> VStr ''Rent'']])))
     = Inr (Some ([''month'' \<mapsto> VStr ''2025-01'', ''category'' \<mapsto> VStr ''Food'',
                   ''limit'' \<mapsto> VNum 400](''id'' \<mapsto> VStr ''01234567-89ab-4cde-b012-3456789abcde'')))"
proof -
  let ?item = "[''month'' \<mapsto> VStr ''2025-01'', ''category'' \<mapsto> VStr ''Food'', ''limit'' \<mapsto> VNum 400]"
  let ?st = "[[''id'' \<mapsto> VStr ''a'', ''month'' \<mapsto> VStr ''2025-01'', ''category'' \<mapsto> VStr ''Rent'']]"
  let ?u = "''01234567-89ab-4cde-b012-3456789abcde''"
  have uuid: "generateUUID (\<lambda>i. i) = ?u"
    by code_simp
  have fresh: "db_get ?st ?u = None"
    by (simp add: db_get_def keyOf_def)
  have noc: "\<not> indexConflict Budgets (?item(''id'' \<mapsto> VStr ?u)) ?st"
    by (simp add: indexConflict_def indexKey_def)
  note spec = add_getById_roundtrip [of Budgets "\<lambda>i. i" ?item ?st ?u, unfolded uuid]
  have added: "fst (add Budgets (\<lambda>i. i) ?item ?st) = Inr ?u"
    using spec fresh noc by blast
  with spec show ?thesis by blast
qed

text \<open>
  C7, as the code has it. For a stored record with identifier \<open>ident\<close> and any partial
  object, after \<open>update\<close> has succeeded the record stored under \<open>ident\<close> has, for every
  property named in the partial other than \<open>id\<close>, the partial's value; its \<open>id\<close> is
  \<open>ident\<close>; every property not named in the partial is as in the previous record; no
  other key reads differently and the other records of the store are the same list.
\<close>

theorem update_frame:
  assumes "db_get st ident = Some existing"
    and "fst (update storeName ident item st) = Inr ()"
  shows "(\<exists>r. db_get (storeAfter (update storeName ident item st)) ident = Some r
            \<and> r ''id'' = Some (VStr ident)
            \<and> (\<forall>k. k \<in> dom item \<and> k \<noteq> ''id'' \<longrightarrow> r k = item k)
            \<and> (\<forall>k. k \<notin> dom item \<longrightarrow> r k = existing k))
       \<and> (\<forall>j. j \<noteq> ident \<longrightarrow>
            db_get (storeAfter (update storeName ident item st)) j = db_get st j)
       \<and> filter (\<lambda>x. keyOf x \<noteq> Some ident) (storeAfter (update storeName ident item st))
           = filter (\<lambda>x. keyOf x \<noteq> Some ident) st"
proof -
  let ?r = "(existing ++ item)(''id'' \<mapsto> VStr ident)"
  have after: "storeAfter (update storeName ident item st) = put_record ?r st"
    using assms by (simp add: update_result storeAfter_def Let_def split: if_splits)
  have key: "keyOf ?r = Some ident" by simp
  have old: "existing ''id'' = Some (VStr ident)"
    using assms(1) by (intro keyOf_id_field db_get_Some_key)
  have fields: "(\<forall>k. k \<in> dom item \<and> k \<noteq> ''id'' \<longrightarrow> ?r k = item k)
            \<and> (\<forall>k. k \<notin> dom item \<longrightarrow> ?r k = existing k)"
    using old by (auto simp: map_add_def split: option.splits)
  have "db_get (put_record ?r st) ident = Some ?r"
    using key by (rule db_get_put_same)
  moreover have "?r ''id'' = Some (VStr ident)" by simp
  ultimately have first: "\<exists>r. db_get (put_record ?r st) ident = Some r
            \<and> r ''id'' = Some (VStr ident)
            \<and> (\<forall>k. k \<in> dom item \<and> k \<noteq> ''id'' \<longrightarrow> r k = item k)
            \<and> (\<forall>k. k \<notin> dom item \<longrightarrow> r k = existing k)"
    using fields by blast
  have second: "\<forall>j. j \<noteq> ident \<longrightarrow> db_get (put_record ?r st) j = db_get st j"
    using db_get_put_other [OF key] by blast
  have third: "filter (\<lambda>x. keyOf x \<noteq> Some ident) (put_record ?r st)
           = filter (\<lambda>x. keyOf x \<noteq> Some ident) st"
    using key by (rule others_put_record)
  from first second third show ?thesis unfolding after by blast
qed

theorem update_frame_witness:
  "db_get [[''id'' \<mapsto> VStr ''a'', ''amount'' \<mapsto> VNum 5, ''category'' \<mapsto> VStr ''Food''],
           [''id'' \<mapsto> VStr ''b'', ''amount'' \<mapsto> VNum 7]] ''a''
     = Some [''id'' \<mapsto> VStr ''a'', ''amount'' \<mapsto> VNum 5, ''category'' \<mapsto> VStr ''Food'']
   \<and> fst (update Transactions ''a'' [''amount'' \<mapsto> VNum 9]
        [[''id'' \<mapsto> VStr ''a'', ''amount'' \<mapsto> VNum 5, ''category'' \<mapsto> VStr ''Food''],
         [''id'' \<mapsto> VStr ''b'', ''amount'' \<mapsto> VNum 7]]) = Inr ()
   \<and> readField (storeAfter (update Transactions ''a'' [''amount'' \<mapsto> VNum 9]
        [[''id'' \<mapsto> VStr ''a'', ''amount'' \<mapsto> VNum 5, ''category'' \<mapsto> VStr ''Food''],
         [''id'' \<mapsto> VStr ''b'', ''amount'' \<mapsto> VNum 7]])) ''a'' ''amount'' = Some (VNum 9)
   \<and> readField (storeAfter (update Transactions ''a'' [''amount'' \<mapsto> VNum 9]
        [[''id'' \<mapsto> VStr ''a'', ''amount'' \<mapsto> VNum 5, ''category'' \<mapsto> VStr ''Food''],
         [''id'' \<mapsto> VStr ''b'', ''amount'' \<mapsto> VNum 7]])) ''a'' ''category'' = Some (VStr ''Food'')
   \<and> readField (storeAfter (update Transactions ''a'' [''amount'' \<mapsto> VNum 9]
        [[''id'' \<mapsto> VStr ''a'', ''amount'' \<mapsto> VNum 5, ''category'' \<mapsto> VStr ''Food''],
         [''id'' \<mapsto> VStr ''b'', ''amount'' \<mapsto> VNum 7]])) ''b'' ''amount'' = Some (VNum 7)"
proof -
  let ?a = "[''id'' \<mapsto> VStr ''a'', ''amount'' \<mapsto> VNum 5, ''category'' \<mapsto> VStr ''Food'']"
  let ?b = "[''id'' \<mapsto> VStr ''b'', ''amount'' \<mapsto> VNum 7]"
  let ?item = "[''amount'' \<mapsto> VNum 9]"
  let ?st' = "storeAfter (update Transactions ''a'' ?item [?a, ?b])"
  have ex: "db_get [?a, ?b] ''a'' = Some ?a"
    by (simp add: db_get_def keyOf_def)
  have ok: "fst (update Transactions ''a'' ?item [?a, ?b]) = Inr ()"
    by (simp add: update_result ex indexConflict_def Let_def)
  have other: "db_get [?a, ?b] ''b'' = Some ?b"
    by (simp add: db_get_def keyOf_def)
  note spec = update_frame [OF ex ok]
  from spec obtain r where r: "db_get ?st' ''a'' = Some r"
    and named: "\<forall>k. k \<in> dom ?item \<and> k \<noteq> ''id'' \<longrightarrow> r k = ?item k"
    and rest: "\<forall>k. k \<notin> dom ?item \<longrightarrow> r k = ?a k"
    by blast
  have f1: "readField ?st' ''a'' ''amount'' = Some (VNum 9)"
    using r named by (simp add: readField_def)
  have f2: "readField ?st' ''a'' ''category'' = Some (VStr ''Food'')"
    using r rest by (simp add: readField_def)
  have "db_get ?st' ''b'' = db_get [?a, ?b] ''b''"
    using spec by simp
  then have f3: "readField ?st' ''b'' ''amount'' = Some (VNum 7)"
    using other by (simp add: readField_def)
  from ex ok f1 f2 f3 show ?thesis by blast
qed

text \<open>
  The claim as the specification words it covers every property named in the partial. A
  partial that names \<open>id\<close> with another value refutes it: the update succeeds and the
  stored \<open>id\<close> is not the partial's.
\<close>

theorem update_frame_id_counterexample:
  "fst (update Transactions ''a'' [''id'' \<mapsto> VStr ''b'']
          [[''id'' \<mapsto> VStr ''a'', ''amount'' \<mapsto> VNum 5]]) = Inr ()
   \<and> readField (storeAfter (update Transactions ''a'' [''id'' \<mapsto> VStr ''b'']
          [[''id'' \<mapsto> VStr ''a'', ''amount'' \<mapsto> VNum 5]])) ''a'' ''id''
       \<noteq> [''id'' \<mapsto> VStr ''b''] ''id''"
  by (simp add: update_result db_get_def keyOf_def indexConflict_def Let_def storeAfter_def
        readField_def)

text \<open>
  C10. \<open>update\<close> never changes an identifier: whatever the partial object holds, also an
  \<open>id\<close> of its own, the keys of the store after \<open>update\<close> are the keys before, in the
  same order, and when \<open>update\<close> succeeds the record stored under \<open>ident\<close> has
  \<open>ident\<close> as its \<open>id\<close>.
\<close>

theorem update_keeps_identifiers:
  "map keyOf (storeAfter (update storeName ident item st)) = map keyOf st
   \<and> (fst (update storeName ident item st) = Inr () \<longrightarrow>
        (\<exists>r. db_get (storeAfter (update storeName ident item st)) ident = Some r
             \<and> r ''id'' = Some (VStr ident)))"
proof (cases "db_get st ident")
  case None
  then show ?thesis by (simp add: update_result storeAfter_def)
next
  case (Some existing)
  let ?r = "(existing ++ item)(''id'' \<mapsto> VStr ident)"
  have key: "keyOf ?r = Some ident" by simp
  have "map keyOf (put_record ?r st) = map keyOf st"
    using key Some by (intro keys_put_record) auto
  moreover have "db_get (put_record ?r st) ident = Some ?r"
    using key by (rule db_get_put_same)
  ultimately show ?thesis
    using Some by (simp add: update_result storeAfter_def Let_def)
qed

theorem update_keeps_identifiers_witness:
  "fst (update Transactions ''a'' [''id'' \<mapsto> VStr ''b'', ''amount'' \<mapsto> VNum 9]
          [[''id'' \<mapsto> VStr ''a'', ''amount'' \<mapsto> VNum 5]]) = Inr ()
   \<and> map keyOf (storeAfter (update Transactions ''a'' [''id'' \<mapsto> VStr ''b'', ''amount'' \<mapsto> VNum 9]
          [[''id'' \<mapsto> VStr ''a'', ''amount'' \<mapsto> VNum 5]])) = [Some ''a'']
   \<and> (\<exists>r. db_get (storeAfter (update Transactions ''a'' [''id'' \<mapsto> VStr ''b'', ''amount'' \<mapsto> VNum 9]
          [[''id'' \<mapsto> VStr ''a'', ''amount'' \<mapsto> VNum 5]])) ''a'' = Some r
        \<and> r ''id'' = Some (VStr ''a''))"
proof -
  let ?a = "[''id'' \<mapsto> VStr ''a'', ''amount'' \<mapsto> VNum 5]"
  let ?item = "[''id'' \<mapsto> VStr ''b'', ''amount'' \<mapsto> VNum 9]"
  have ex: "db_get [?a] ''a'' = Some ?a"
    by (simp add: db_get_def keyOf_def)
  have ok: "fst (update Transactions ''a'' ?item [?a]) = Inr ()"
    by (simp add: update_result ex indexConflict_def Let_def)
  have keys: "map keyOf [?a] = [Some ''a'']"
    by (simp add: keyOf_def)
  from update_keeps_identifiers [of Transactions "''a''" ?item "[?a]"] ok keys
  show ?thesis by simp
qed

section \<open>Budget uniqueness\<close>

lemma isDuplicateBudget_result:
  "isDuplicateBudget m c ex st = (Inr (someDuplicate (map asBudget st) m c ex), st, [])"
  by (simp add: isDuplicateBudget_def getAll_result db_getAll_def)

lemma encode_created:
  "(encodeData (sanitized data))(''id'' \<mapsto> VStr ident) = encodeBudget (created ident data)"
  by (rule ext) (simp add: encodeData_def encodeBudget_def sanitized_def created_def)

lemma addBudget_result:
  "addBudget rnd data st =
     (case validateBudgetData data of
        Some e \<Rightarrow> (Inl (ThrownError e), st, [])
      | None \<Rightarrow>
          if someDuplicate (map asBudget st) (dmonth data) (trim (dcategory data)) None
          then (Inl (ThrownError (ValidationError
                  (duplicateMessage (trim (dcategory data)) (dmonth data)))), st, [])
          else if db_get st (generateUUID rnd) \<noteq> None
          then (Inl (ThrownError (StorageError (''Failed to add item: '' @ keyMessage)
                  (Some (ConstraintError keyMessage)))), st, [])
          else if indexConflict Budgets (encodeBudget (created (generateUUID rnd) data)) st
          then (Inl (ThrownError (StorageError (''Failed to add item: '' @ indexMessage)
                  (Some (ConstraintError indexMessage)))), st, [])
          else (Inr (created (generateUUID rnd) data),
                st @ [encodeBudget (created (generateUUID rnd) data)], []))"
  using encode_created [of data "generateUUID rnd"]
  by (simp add: addBudget_def isDuplicateBudget_result add_result Let_def created_def sanitized_def
           split: option.splits)

lemma updateBudget_result:
  "updateBudget ident data st =
     (if pmonth data = Absent \<and> pcategory data = Absent \<and> plimit data = Absent
      then (Inl (ThrownError (ValidationError ''No data provided for update'')), st, [])
      else case db_get st ident of
             None \<Rightarrow> (Inl (ThrownError (budgetNotFound ident)), st, [])
           | Some r \<Rightarrow>
               (case validateBudgetData (merged (asBudget r) data) of
                  Some e \<Rightarrow> (Inl (ThrownError e), st, [])
                | None \<Rightarrow>
                    if (isGiven (pmonth data) \<or> isGiven (pcategory data)) \<and>
                       someDuplicate (map asBudget st) (dmonth (merged (asBudget r) data))
                         (dcategory (merged (asBudget r) data)) (Some ident)
                    then (Inl (ThrownError (ValidationError
                            (duplicateMessage (dcategory (merged (asBudget r) data))
                               (dmonth (merged (asBudget r) data))))), st, [])
                    else if indexConflict Budgets (written ident r data) st
                    then (Inl (ThrownError (StorageError (''Failed to update item: '' @ indexMessage)
                            (Some (ConstraintError indexMessage)))), st, [])
                    else (Inr (), put_record (written ident r data) st, [])))"
  by (simp add: updateBudget_def getById_result isDuplicateBudget_result update_result Let_def
           merged_def written_def split: option.splits)

lemma deleteBudget_result: "deleteBudget ident st = (Inr (), db_delete st ident, [])"
  by (simp add: deleteBudget_def delete_result)

lemma getAllBudgets_result: "getAllBudgets st = (Inr (map asBudget st), st, [])"
  by (simp add: getAllBudgets_def getAll_result db_getAll_def)


lemma trim_no_leading: "dropWhile isWhiteSpace (trim s) = trim s"
proof -
  let ?t = "dropWhile isWhiteSpace s"
  let ?u = "dropWhile isWhiteSpace (rev ?t)"
  show ?thesis
  proof (cases "?u = []")
    case True
    show ?thesis by (simp only: trim_def True rev.simps dropWhile.simps)
  next
    case False
    have "rev ?t = takeWhile isWhiteSpace (rev ?t) @ ?u" by simp
    then have "last (rev ?t) = last ?u"
      using False by (metis last_appendR)
    moreover have "?t \<noteq> []" using False by (metis dropWhile.simps(1) rev.simps(1))
    ultimately have "last ?u = hd ?t" by (simp add: last_rev)
    moreover have "\<not> isWhiteSpace (hd ?t)"
      using \<open>?t \<noteq> []\<close> by (rule hd_dropWhile)
    ultimately have "\<not> isWhiteSpace (hd (rev ?u))"
      using False by (simp add: hd_rev)
    then show ?thesis
      by (simp add: trim_def dropWhile_eq_self_iff)
  qed
qed

lemma trim_trim: "trim (trim s) = trim s"
proof -
  have "trim (trim s) = rev (dropWhile isWhiteSpace (rev (trim s)))"
    unfolding trim_def [of "trim s"] by (simp only: trim_no_leading)
  also have "\<dots> = trim s"
    by (simp add: trim_def)
  finally show ?thesis .
qed

lemma asBudget_encode [simp]: "asBudget (encodeBudget b) = b"
  by (simp add: asBudget_def encodeBudget_def)

lemma keyOf_encode [simp]: "keyOf (encodeBudget b) = Some (bid b)"
  by (simp add: keyOf_def encodeBudget_def)

lemma indexKey_encode [simp]:
  "indexKey (encodeBudget b) = Some (VStr (month b), VStr (bcategory b))"
  by (simp add: indexKey_def encodeBudget_def)

lemma wellFormed_encode:
  "wellFormed (encodeBudget b) \<longleftrightarrow> bid b \<noteq> [] \<and> trim (bcategory b) = bcategory b"
  by (simp add: wellFormed_def)

lemma wellFormed_key: "wellFormed r \<Longrightarrow> keyOf r = Some (bid (asBudget r))"
  by (metis keyOf_encode wellFormed_def)

lemma written_encode:
  "written ident (encodeBudget b) data = encodeBudget (applied ident b data)"
  by (rule ext)
     (simp add: written_def encodeBudget_def applied_def encodePatch_def sanitizePatch_def
        map_add_def split: field.splits)

lemma written_wellFormed:
  assumes "wellFormed r"
  shows "written ident r data = encodeBudget (applied ident (asBudget r) data)"
  using assms written_encode [of ident "asBudget r" data] by (simp add: wellFormed_def)

lemma generateUUID_nonempty: "generateUUID rnd \<noteq> []"
  by (simp add: generateUUID_def Let_def)

lemma someDuplicate_None:
  "someDuplicate bs m c None \<longleftrightarrow>
     (\<exists>b \<in> set bs. month b = m \<and> toLowerCase (bcategory b) = toLowerCase (trim c))"
  by (auto simp: someDuplicate_def list_ex_iff)

lemma someDuplicate_Some:
  "ident \<noteq> [] \<Longrightarrow>
   someDuplicate bs m c (Some ident) \<longleftrightarrow>
     (\<exists>b \<in> set bs. bid b \<noteq> ident \<and> month b = m \<and> toLowerCase (bcategory b) = toLowerCase (trim c))"
  by (auto simp: someDuplicate_def list_ex_iff)

lemma set_put_record: "set (put_record r st) \<subseteq> insert r (set st)"
  by (induction st) auto


lemma sameSlot_sym: "sameSlot a b \<Longrightarrow> sameSlot b a"
  by (simp add: sameSlot_def)

lemma storeInv_add:
  assumes inv: "storeInv st"
    and nodup: "\<not> someDuplicate (map asBudget st) (dmonth data) (trim (dcategory data)) None"
    and fresh: "db_get st ident = None"
    and ne: "ident \<noteq> []"
  shows "storeInv (st @ [encodeBudget (created ident data)])"
proof -
  let ?b = "created ident data"
  let ?n = "encodeBudget ?b"
  have wfn: "wellFormed ?n"
    using ne by (simp add: wellFormed_encode created_def trim_trim)
  have keyn: "keyOf ?n = Some ident" by (simp add: created_def)
  have newkey: "Some ident \<notin> set (map keyOf st)"
    using fresh by (auto simp: db_get_None_iff)
  have apart: "\<not> sameSlot (asBudget r) ?b" if "r \<in> set st" for r
    using nodup that by (auto simp: someDuplicate_None sameSlot_def created_def trim_trim)
  have wf: "\<forall>r \<in> set (st @ [?n]). wellFormed r"
    using inv wfn by (auto simp: storeInv_def)
  have di: "distinct (map keyOf (st @ [?n]))"
    using inv newkey keyn by (simp add: storeInv_def)
  have nc: "\<forall>r1 \<in> set (st @ [?n]). \<forall>r2 \<in> set (st @ [?n]).
         keyOf r1 \<noteq> keyOf r2 \<longrightarrow> \<not> sameSlot (asBudget r1) (asBudget r2)"
  proof (intro ballI impI)
    fix r1 r2
    assume m1: "r1 \<in> set (st @ [?n])" and m2: "r2 \<in> set (st @ [?n])"
      and k: "keyOf r1 \<noteq> keyOf r2"
    consider (old) "r1 \<in> set st" "r2 \<in> set st" | (left) "r1 = ?n" "r2 \<in> set st"
      | (right) "r1 \<in> set st" "r2 = ?n" | (both) "r1 = ?n" "r2 = ?n"
      using m1 m2 by auto
    then show "\<not> sameSlot (asBudget r1) (asBudget r2)"
    proof cases
      case old
      then show ?thesis using inv k by (simp add: storeInv_def)
    next
      case left
      then show ?thesis using apart [of r2] sameSlot_sym by auto
    next
      case right
      then show ?thesis using apart [of r1] by simp
    next
      case both
      then show ?thesis using k by simp
    qed
  qed
  from wf di nc show ?thesis unfolding storeInv_def by blast
qed

lemma storeInv_update:
  assumes inv: "storeInv st"
    and found: "db_get st ident = Some r"
    and nodup: "isGiven (pmonth data) \<or> isGiven (pcategory data) \<Longrightarrow>
       \<not> someDuplicate (map asBudget st) (dmonth (merged (asBudget r) data))
           (dcategory (merged (asBudget r) data)) (Some ident)"
  shows "storeInv (put_record (written ident r data) st)"
proof -
  let ?e = "asBudget r"
  let ?b = "applied ident ?e data"
  let ?n = "encodeBudget ?b"
  have rin: "r \<in> set st" using found by (auto simp: db_get_def find_Some_iff)
  have wfr: "wellFormed r" using inv rin by (simp add: storeInv_def)
  have keyr: "keyOf r = Some ident" using found by (rule db_get_Some_key)
  have bidr: "bid ?e = ident" using wellFormed_key [OF wfr] keyr by simp
  have ne: "ident \<noteq> []" using wfr bidr by (auto simp: wellFormed_def)
  have trimmed: "trim (bcategory ?e) = bcategory ?e" using wfr by (simp add: wellFormed_def)
  have wr: "written ident r data = ?n" using wfr by (rule written_wellFormed)
  have keyn: "keyOf ?n = Some ident" by (simp add: applied_def)
  have wfn: "wellFormed ?n"
    using ne trimmed by (simp add: wellFormed_encode applied_def trim_trim split: field.splits)
  have slot: "month ?b = dmonth (merged ?e data)
      \<and> toLowerCase (bcategory ?b) = toLowerCase (trim (dcategory (merged ?e data)))"
    using trimmed by (simp add: applied_def merged_def split: field.splits)
  have apart: "\<not> sameSlot ?b (asBudget y)" if y: "y \<in> set st" and ky: "keyOf y \<noteq> Some ident" for y
  proof (cases "isGiven (pmonth data) \<or> isGiven (pcategory data)")
    case True
    have wfy: "wellFormed y" using inv y by (simp add: storeInv_def)
    have "bid (asBudget y) \<noteq> ident" using wellFormed_key [OF wfy] ky by simp
    moreover have "asBudget y \<in> set (map asBudget st)" using y by simp
    ultimately show ?thesis
      using nodup [OF True] slot unfolding someDuplicate_Some [OF ne] sameSlot_def by metis
  next
    case False
    then have same: "month ?b = month ?e \<and> bcategory ?b = bcategory ?e"
      by (cases "pmonth data"; cases "pcategory data") (simp_all add: applied_def)
    have "\<not> sameSlot ?e (asBudget y)"
      using inv rin y keyr ky by (auto simp: storeInv_def)
    then show ?thesis using same by (simp add: sameSlot_def)
  qed
  have sub: "set (put_record ?n st) \<subseteq> insert ?n (set st)" by (rule set_put_record)
  have wf: "\<forall>x \<in> set (put_record ?n st). wellFormed x"
    using sub inv wfn by (auto simp: storeInv_def)
  have "map keyOf (put_record ?n st) = map keyOf st"
    using keyn found by (intro keys_put_record) auto
  then have di: "distinct (map keyOf (put_record ?n st))"
    using inv by (simp add: storeInv_def)
  have nc: "\<forall>r1 \<in> set (put_record ?n st). \<forall>r2 \<in> set (put_record ?n st).
         keyOf r1 \<noteq> keyOf r2 \<longrightarrow> \<not> sameSlot (asBudget r1) (asBudget r2)"
  proof (intro ballI impI)
    fix r1 r2
    assume m1: "r1 \<in> set (put_record ?n st)" and m2: "r2 \<in> set (put_record ?n st)"
      and k: "keyOf r1 \<noteq> keyOf r2"
    consider (new1) "r1 = ?n" | (new2) "r1 \<noteq> ?n" "r2 = ?n" | (old) "r1 \<in> set st" "r2 \<in> set st"
      using m1 m2 sub by blast
    then show "\<not> sameSlot (asBudget r1) (asBudget r2)"
    proof cases
      case new1
      then have "keyOf r2 \<noteq> Some ident" using k keyn by simp
      moreover from this have "r2 \<in> set st" using m2 sub keyn by auto
      ultimately show ?thesis using apart [of r2] new1 by simp
    next
      case new2
      then have "keyOf r1 \<noteq> Some ident" using k keyn by simp
      moreover have "r1 \<in> set st" using m1 sub new2 by auto
      ultimately show ?thesis using apart [of r1] new2 sameSlot_sym by auto
    next
      case old
      then show ?thesis using inv k by (simp add: storeInv_def)
    qed
  qed
  from wf di nc show ?thesis unfolding wr storeInv_def by blast
qed

lemma storeInv_delete:
  assumes "storeInv st"
  shows "storeInv (db_delete st k)"
  using assms unfolding storeInv_def db_delete_def
  by (auto simp: distinct_map_filter)

lemma reachable_storeInv: "reachable st \<Longrightarrow> storeInv st"
proof (induction rule: reachable.induct)
  case initial
  show ?case by (simp add: storeInv_def)
next
  case (afterAdd st rnd data)
  show ?case
    using afterAdd.IH storeInv_add [of st data "generateUUID rnd"] generateUUID_nonempty [of rnd]
    by (auto simp: addBudget_result storeAfter_def split: option.splits)
next
  case (afterUpdate st ident patch)
  show ?case
    using afterUpdate.IH storeInv_update [of st ident _ patch]
    by (auto simp: updateBudget_result storeAfter_def split: option.splits)
next
  case (afterDelete st ident)
  then show ?case
    by (simp add: deleteBudget_result storeAfter_def storeInv_delete)
qed


lemma reachable_unique:
  assumes "reachable st" and "i < length st" and "j < length st" and "i \<noteq> j"
  shows "\<not> sameSlot (asBudget (st ! i)) (asBudget (st ! j))"
proof -
  have inv: "storeInv st" using assms(1) by (rule reachable_storeInv)
  then have "distinct (map keyOf st)" by (simp add: storeInv_def)
  then have "keyOf (st ! i) \<noteq> keyOf (st ! j)"
    using assms(2-4) by (metis length_map nth_eq_iff_index_eq nth_map)
  then show ?thesis using inv assms(2,3) by (simp add: storeInv_def)
qed

lemma addBudget_duplicate:
  assumes "validateBudgetData data = None" and "b \<in> set (map asBudget st)" and "collides b data"
  shows "addBudget rnd data st =
           (Inl (ThrownError (ValidationError (duplicateMessage (trim (dcategory data)) (dmonth data)))),
            st, [])"
proof -
  have "someDuplicate (map asBudget st) (dmonth data) (trim (dcategory data)) None"
    using assms(2,3) unfolding someDuplicate_None collides_def trim_trim by blast
  then show ?thesis using assms(1) by (simp add: addBudget_result)
qed

lemma updateBudget_duplicate:
  assumes re: "reachable st"
    and found: "db_get st ident = Some r"
    and some: "\<not> noData data"
    and valid: "validateBudgetData (merged (asBudget r) data) = None"
    and other: "b \<in> set (map asBudget st)" "bid b \<noteq> ident"
    and coll: "collides b (merged (asBudget r) data)"
  shows "updateBudget ident data st =
           (Inl (ThrownError (ValidationError
              (duplicateMessage (dcategory (merged (asBudget r) data))
                 (dmonth (merged (asBudget r) data))))), st, [])"
proof -
  let ?e = "asBudget r"
  have inv: "storeInv st" using re by (rule reachable_storeInv)
  have rin: "r \<in> set st" using found by (auto simp: db_get_def find_Some_iff)
  have wfr: "wellFormed r" using inv rin by (simp add: storeInv_def)
  have keyr: "keyOf r = Some ident" using found by (rule db_get_Some_key)
  have bidr: "bid ?e = ident" using wellFormed_key [OF wfr] keyr by simp
  have ne: "ident \<noteq> []" using wfr bidr by (auto simp: wellFormed_def)
  have trimmed: "trim (bcategory ?e) = bcategory ?e" using wfr by (simp add: wellFormed_def)
  obtain y where y: "y \<in> set st" and beq: "b = asBudget y" using other(1) by auto
  have wfy: "wellFormed y" using inv y by (simp add: storeInv_def)
  have ky: "keyOf y \<noteq> keyOf r" using wellFormed_key [OF wfy] keyr other(2) beq by simp
  have given: "isGiven (pmonth data) \<or> isGiven (pcategory data)"
  proof (rule ccontr)
    assume "\<not> (isGiven (pmonth data) \<or> isGiven (pcategory data))"
    then have "dmonth (merged ?e data) = month ?e \<and> dcategory (merged ?e data) = bcategory ?e"
      by (cases "pmonth data"; cases "pcategory data") (simp_all add: merged_def)
    then have "sameSlot (asBudget y) ?e"
      using coll beq trimmed by (simp add: collides_def sameSlot_def)
    moreover have "\<not> sameSlot (asBudget y) ?e"
      using inv y rin ky by (simp add: storeInv_def)
    ultimately show False by simp
  qed
  have "someDuplicate (map asBudget st) (dmonth (merged ?e data)) (dcategory (merged ?e data))
          (Some ident)"
    using other coll unfolding someDuplicate_Some [OF ne] collides_def by blast
  then show ?thesis
    using found some valid given by (auto simp: updateBudget_result noData_def)
qed

lemma updateBudget_succeeds:
  assumes re: "reachable st"
    and found: "db_get st ident = Some r"
    and some: "\<not> noData data"
    and valid: "validateBudgetData (merged (asBudget r) data) = None"
    and free: "\<forall>b \<in> set (map asBudget st). bid b \<noteq> ident \<longrightarrow> \<not> collides b (merged (asBudget r) data)"
  shows "updateBudget ident data st =
           (Inr (), put_record (encodeBudget (applied ident (asBudget r) data)) st, [])"
proof -
  let ?e = "asBudget r"
  let ?b = "applied ident ?e data"
  have inv: "storeInv st" using re by (rule reachable_storeInv)
  have rin: "r \<in> set st" using found by (auto simp: db_get_def find_Some_iff)
  have wfr: "wellFormed r" using inv rin by (simp add: storeInv_def)
  have keyr: "keyOf r = Some ident" using found by (rule db_get_Some_key)
  have bidr: "bid ?e = ident" using wellFormed_key [OF wfr] keyr by simp
  have ne: "ident \<noteq> []" using wfr bidr by (auto simp: wellFormed_def)
  have trimmed: "trim (bcategory ?e) = bcategory ?e" using wfr by (simp add: wellFormed_def)
  have wr: "written ident r data = encodeBudget ?b" using wfr by (rule written_wellFormed)
  have nodup: "\<not> someDuplicate (map asBudget st) (dmonth (merged ?e data))
                  (dcategory (merged ?e data)) (Some ident)"
    using free unfolding someDuplicate_Some [OF ne] collides_def by blast
  have slot: "month ?b = dmonth (merged ?e data)
      \<and> toLowerCase (bcategory ?b) = toLowerCase (trim (dcategory (merged ?e data)))"
    using trimmed by (simp add: applied_def merged_def split: field.splits)
  have noidx: "\<not> indexConflict Budgets (encodeBudget ?b) st"
  proof
    assume "indexConflict Budgets (encodeBudget ?b) st"
    then obtain x where x: "x \<in> set st" and kx: "keyOf x \<noteq> Some ident"
      and ix: "indexKey x = Some (VStr (month ?b), VStr (bcategory ?b))"
      by (auto simp: indexConflict_def list_ex_iff applied_def)
    have wfx: "wellFormed x" using inv x by (simp add: storeInv_def)
    then have "indexKey x = Some (VStr (month (asBudget x)), VStr (bcategory (asBudget x)))"
      by (metis indexKey_encode wellFormed_def)
    with ix have "month (asBudget x) = month ?b \<and> bcategory (asBudget x) = bcategory ?b" by simp
    then have "collides (asBudget x) (merged ?e data)" using slot by (simp add: collides_def)
    moreover have "bid (asBudget x) \<noteq> ident" using wellFormed_key [OF wfx] kx by simp
    ultimately show False using free x by auto
  qed
  show ?thesis
    using found some valid nodup noidx wr by (auto simp: updateBudget_result noData_def)
qed

text \<open>
  C1. Let the budget store be reachable through the Budget Service (from the empty store by
  addBudget, updateBudget and deleteBudget). Then:
  \<^item> no two budgets of the store have the same month and categories that are equal up to
    letter case;
  \<^item> for valid data whose month is an existing budget's month and whose trimmed category
    equals that budget's category up to case, addBudget throws the ValidationError that
    says the budget already exists, and the store is unchanged;
  \<^item> updateBudget throws the same kind of ValidationError, and leaves the store unchanged,
    when the merged month and category collide with a budget that has another identifier;
  \<^item> updateBudget succeeds when the merged data are valid and collide with no budget that
    has another identifier, and the budget is then stored with the merged fields.
\<close>

theorem budget_uniqueness:
  assumes "reachable st"
  shows "(\<exists>bs. fst (getAllBudgets st) = Inr bs \<and>
            (\<forall>i j. i < length bs \<and> j < length bs \<and> i \<noteq> j \<longrightarrow> \<not> sameSlot (bs ! i) (bs ! j)))
       \<and> (validateBudgetData data = None \<and> b \<in> set (map asBudget st) \<and> collides b data \<longrightarrow>
            fst (addBudget rnd data st) =
              Inl (ThrownError (ValidationError
                (duplicateMessage (trim (dcategory data)) (dmonth data))))
            \<and> storeAfter (addBudget rnd data st) = st)
       \<and> (db_get st ident = Some r \<and> \<not> noData patch
            \<and> validateBudgetData (merged (asBudget r) patch) = None
            \<and> b \<in> set (map asBudget st) \<and> bid b \<noteq> ident
            \<and> collides b (merged (asBudget r) patch) \<longrightarrow>
            fst (updateBudget ident patch st) =
              Inl (ThrownError (ValidationError
                (duplicateMessage (dcategory (merged (asBudget r) patch))
                   (dmonth (merged (asBudget r) patch)))))
            \<and> storeAfter (updateBudget ident patch st) = st)
       \<and> (db_get st ident = Some r \<and> \<not> noData patch
            \<and> validateBudgetData (merged (asBudget r) patch) = None
            \<and> (\<forall>c \<in> set (map asBudget st).
                  bid c \<noteq> ident \<longrightarrow> \<not> collides c (merged (asBudget r) patch)) \<longrightarrow>
            fst (updateBudget ident patch st) = Inr ()
            \<and> fst (getById ident (storeAfter (updateBudget ident patch st))) =
                Inr (Some (encodeBudget (applied ident (asBudget r) patch))))"
proof (intro conjI impI)
  have "\<forall>i j. i < length (map asBudget st) \<and> j < length (map asBudget st) \<and> i \<noteq> j \<longrightarrow>
          \<not> sameSlot (map asBudget st ! i) (map asBudget st ! j)"
    using reachable_unique [OF assms] by simp
  then show "\<exists>bs. fst (getAllBudgets st) = Inr bs \<and>
            (\<forall>i j. i < length bs \<and> j < length bs \<and> i \<noteq> j \<longrightarrow> \<not> sameSlot (bs ! i) (bs ! j))"
    unfolding getAllBudgets_result by simp
next
  assume h: "validateBudgetData data = None \<and> b \<in> set (map asBudget st) \<and> collides b data"
  then have run: "addBudget rnd data st =
           (Inl (ThrownError (ValidationError (duplicateMessage (trim (dcategory data)) (dmonth data)))),
            st, [])"
    by (intro addBudget_duplicate) blast+
  show "fst (addBudget rnd data st) =
              Inl (ThrownError (ValidationError
                (duplicateMessage (trim (dcategory data)) (dmonth data))))"
    by (simp add: run)
  show "storeAfter (addBudget rnd data st) = st"
    by (simp add: run storeAfter_def)
next
  assume h: "db_get st ident = Some r \<and> \<not> noData patch
            \<and> validateBudgetData (merged (asBudget r) patch) = None
            \<and> b \<in> set (map asBudget st) \<and> bid b \<noteq> ident
            \<and> collides b (merged (asBudget r) patch)"
  then have run: "updateBudget ident patch st =
           (Inl (ThrownError (ValidationError
              (duplicateMessage (dcategory (merged (asBudget r) patch))
                 (dmonth (merged (asBudget r) patch))))), st, [])"
    using assms by (intro updateBudget_duplicate) blast+
  show "fst (updateBudget ident patch st) =
              Inl (ThrownError (ValidationError
                (duplicateMessage (dcategory (merged (asBudget r) patch))
                   (dmonth (merged (asBudget r) patch)))))"
    by (simp add: run)
  show "storeAfter (updateBudget ident patch st) = st"
    by (simp add: run storeAfter_def)
next
  assume h: "db_get st ident = Some r \<and> \<not> noData patch
            \<and> validateBudgetData (merged (asBudget r) patch) = None
            \<and> (\<forall>c \<in> set (map asBudget st).
                  bid c \<noteq> ident \<longrightarrow> \<not> collides c (merged (asBudget r) patch))"
  then have run: "updateBudget ident patch st =
           (Inr (), put_record (encodeBudget (applied ident (asBudget r) patch)) st, [])"
    using assms by (intro updateBudget_succeeds) blast+
  show "fst (updateBudget ident patch st) = Inr ()"
    by (simp add: run)
  have "keyOf (encodeBudget (applied ident (asBudget r) patch)) = Some ident"
    by (simp add: applied_def)
  then show "fst (getById ident (storeAfter (updateBudget ident patch st))) =
                Inr (Some (encodeBudget (applied ident (asBudget r) patch)))"
    by (simp add: run storeAfter_def getById_result db_get_put_same)
qed

lemma uuid_counting: "generateUUID (\<lambda>i. i) = ''01234567-89ab-4cde-b012-3456789abcde''" by code_simp
lemma uuid_zero: "generateUUID (\<lambda>i. 0) = ''00000000-0000-4000-8000-000000000000''" by code_simp

lemma groceries_valid: "validateBudgetData groceries = None"
  by (simp add: validateBudgetData_def groceries_def isDigit_def monthDateIsNaN_def digitValue_def trim_def isWhiteSpace_def)

lemma rent_valid: "validateBudgetData rent = None"
  by (simp add: validateBudgetData_def rent_def isDigit_def monthDateIsNaN_def digitValue_def trim_def isWhiteSpace_def)

lemma trim_Groceries: "trim ''Groceries'' = ''Groceries''" by (simp add: trim_def isWhiteSpace_def)
lemma trim_Rent: "trim ''Rent'' = ''Rent''" by (simp add: trim_def isWhiteSpace_def)
lemma trim_padded: "trim '' groceries '' = ''groceries''" by (simp add: trim_def isWhiteSpace_def)
lemma lower_Groceries: "toLowerCase ''Groceries'' = ''groceries''" by code_simp
lemma lower_Rent: "toLowerCase ''Rent'' = ''rent''" by code_simp
lemma lower_GROCERIES: "toLowerCase ''GROCERIES'' = ''groceries''" by code_simp
lemma lower_groceries: "toLowerCase ''groceries'' = ''groceries''" by code_simp
lemma lower_rent: "toLowerCase ''rent'' = ''rent''" by code_simp

lemma created_groceries: "created x groceries = \<lparr>bid = x, month = ''2025-01'', bcategory = ''Groceries'', limit = 400\<rparr>"
  by (simp add: created_def groceries_def trim_Groceries)
lemma created_rent: "created x rent = \<lparr>bid = x, month = ''2025-01'', bcategory = ''Rent'', limit = 1000\<rparr>"
  by (simp add: created_def rent_def trim_Rent)
lemma groceries_fields: "dmonth groceries = ''2025-01''" "trim (dcategory groceries) = ''Groceries''"
  by (simp_all add: groceries_def trim_Groceries)
lemma rent_fields: "dmonth rent = ''2025-01''" "trim (dcategory rent) = ''Rent''"
  by (simp_all add: rent_def trim_Rent)

lemma twoBudgets_eq:
  "twoBudgets =
     [encodeBudget \<lparr>bid = ''01234567-89ab-4cde-b012-3456789abcde'', month = ''2025-01'',
                    bcategory = ''Groceries'', limit = 400\<rparr>,
      encodeBudget \<lparr>bid = ''00000000-0000-4000-8000-000000000000'', month = ''2025-01'',
                    bcategory = ''Rent'', limit = 1000\<rparr>]"
proof -
  have first: "storeAfter (addBudget (\<lambda>i. i) groceries []) =
     [encodeBudget \<lparr>bid = ''01234567-89ab-4cde-b012-3456789abcde'', month = ''2025-01'',
                    bcategory = ''Groceries'', limit = 400\<rparr>]"
    by (simp add: addBudget_result groceries_valid uuid_counting storeAfter_def someDuplicate_None db_get_def
          indexConflict_def created_groceries groceries_fields)
  show ?thesis
    unfolding twoBudgets_def first
    by (simp add: addBudget_result rent_valid uuid_zero storeAfter_def someDuplicate_None db_get_def
          indexConflict_def created_rent rent_fields trim_Rent lower_Groceries lower_Rent)
qed

lemma twoBudgets_reachable: "reachable twoBudgets"
  unfolding twoBudgets_def by (intro reachable.intros)


theorem budget_uniqueness_witness:
  "reachable twoBudgets
   \<and> \<not> sameSlot (asBudget (twoBudgets ! 0)) (asBudget (twoBudgets ! 1))
   \<and> fst (addBudget (\<lambda>i. 7) \<lparr>dmonth = ''2025-01'', dcategory = '' groceries '', dlimit = 100\<rparr>
          twoBudgets)
       = Inl (ThrownError (ValidationError ''A budget for groceries in 2025-01 already exists''))
   \<and> storeAfter (addBudget (\<lambda>i. 7)
          \<lparr>dmonth = ''2025-01'', dcategory = '' groceries '', dlimit = 100\<rparr> twoBudgets)
       = twoBudgets
   \<and> fst (updateBudget ''00000000-0000-4000-8000-000000000000''
          \<lparr>pmonth = Absent, pcategory = Given ''GROCERIES'', plimit = Undefined\<rparr> twoBudgets)
       = Inl (ThrownError (ValidationError ''A budget for GROCERIES in 2025-01 already exists''))
   \<and> fst (updateBudget ''00000000-0000-4000-8000-000000000000''
          \<lparr>pmonth = Absent, pcategory = Given ''rent'', plimit = Given 1200\<rparr> twoBudgets)
       = Inr ()"
proof -
  let ?u1 = "''01234567-89ab-4cde-b012-3456789abcde''"
  let ?u2 = "''00000000-0000-4000-8000-000000000000''"
  let ?b1 = "\<lparr>bid = ?u1, month = ''2025-01'', bcategory = ''Groceries'', limit = 400\<rparr>"
  let ?b2 = "\<lparr>bid = ?u2, month = ''2025-01'', bcategory = ''Rent'', limit = 1000\<rparr>"
  let ?d3 = "\<lparr>dmonth = ''2025-01'', dcategory = '' groceries '', dlimit = 100\<rparr>"
  let ?pB = "\<lparr>pmonth = Absent, pcategory = Given ''GROCERIES'', plimit = Undefined\<rparr>"
  let ?pC = "\<lparr>pmonth = Absent, pcategory = Given ''rent'', plimit = Given 1200\<rparr>"
  have re: "reachable twoBudgets" by (rule twoBudgets_reachable)
  have bs: "map asBudget twoBudgets = [?b1, ?b2]" by (simp add: twoBudgets_eq)
  have v3: "validateBudgetData ?d3 = None"
    by (simp add: validateBudgetData_def isDigit_def monthDateIsNaN_def digitValue_def trim_padded)
  have in1: "?b1 \<in> set (map asBudget twoBudgets)" by (simp add: bs)
  have c3: "collides ?b1 ?d3" by (simp add: collides_def trim_padded lower_Groceries lower_groceries)
  have got: "db_get twoBudgets ?u2 = Some (encodeBudget ?b2)"
    by (simp add: twoBudgets_eq db_get_def)
  have tB: "trim ''GROCERIES'' = ''GROCERIES''" by (simp add: trim_def isWhiteSpace_def)
  have tC: "trim ''rent'' = ''rent''" by (simp add: trim_def isWhiteSpace_def)
  have mB: "merged ?b2 ?pB = \<lparr>dmonth = ''2025-01'', dcategory = ''GROCERIES'', dlimit = 1000\<rparr>"
    by (simp add: merged_def)
  have mC: "merged ?b2 ?pC = \<lparr>dmonth = ''2025-01'', dcategory = ''rent'', dlimit = 1200\<rparr>"
    by (simp add: merged_def)
  have vB: "validateBudgetData (merged ?b2 ?pB) = None"
    by (simp add: mB validateBudgetData_def isDigit_def monthDateIsNaN_def digitValue_def tB)
  have vC: "validateBudgetData (merged ?b2 ?pC) = None"
    by (simp add: mC validateBudgetData_def isDigit_def monthDateIsNaN_def digitValue_def tC)
  have cB: "collides ?b1 (merged ?b2 ?pB)" by (simp add: mB collides_def tB lower_Groceries lower_GROCERIES)
  have nB: "\<not> noData ?pB" and nC: "\<not> noData ?pC" by (simp_all add: noData_def)
  have freeC: "\<forall>c \<in> set (map asBudget twoBudgets).
                 bid c \<noteq> ?u2 \<longrightarrow> \<not> collides c (merged ?b2 ?pC)"
    by (simp add: bs mC collides_def tC lower_Groceries lower_rent)
  note A = budget_uniqueness [OF re, of ?d3 ?b1 "\<lambda>i. 7"]
  note B = budget_uniqueness [OF re, of _ ?b1 _ ?u2 "encodeBudget ?b2" ?pB]
  note C = budget_uniqueness [OF re, of _ _ _ ?u2 "encodeBudget ?b2" ?pC]
  have "\<forall>i j. i < length (map asBudget twoBudgets) \<and> j < length (map asBudget twoBudgets) \<and> i \<noteq> j
          \<longrightarrow> \<not> sameSlot (map asBudget twoBudgets ! i) (map asBudget twoBudgets ! j)"
    using A [THEN conjunct1] by (simp add: getAllBudgets_result)
  from this [rule_format, of 0 1]
  have one: "\<not> sameSlot (asBudget (twoBudgets ! 0)) (asBudget (twoBudgets ! 1))"
    by (simp add: twoBudgets_eq)
  have addDup: "fst (addBudget (\<lambda>i. 7) ?d3 twoBudgets)
       = Inl (ThrownError (ValidationError ''A budget for groceries in 2025-01 already exists''))
     \<and> storeAfter (addBudget (\<lambda>i. 7) ?d3 twoBudgets) = twoBudgets"
    using A v3 in1 c3 by (simp add: duplicateMessage_def trim_padded)
  have updDup: "fst (updateBudget ?u2 ?pB twoBudgets)
       = Inl (ThrownError (ValidationError ''A budget for GROCERIES in 2025-01 already exists''))"
    using B got nB vB in1 cB by (simp add: duplicateMessage_def mB)
  have updOk: "fst (updateBudget ?u2 ?pC twoBudgets) = Inr ()"
    using C got nC vC freeC by simp
  from re one addDup updDup updOk show ?thesis by blast
qed

section \<open>Spending over time\<close>

lemma parse_is_midnight: "parseISODate s = Some t \<Longrightarrow> \<exists>d. t = d * msPerDay"
  by (erule parseISODate.elims) (auto simp: Let_def split: if_splits)

lemma weekDay_midnight: "weekDay (d * msPerDay) = (d + 4) mod 7"
  by (simp add: weekDay_def msPerDay_def)

lemma back_to_monday:
  "(d + (if (d + 4) mod 7 = 0 then - 6 else 1 - (d + 4) mod 7) + 4) mod 7 = (1::int)"
proof (cases "(d + 4) mod 7 = 0")
  case True
  then have "(d - 2) mod 7 = 1" by presburger
  with True show ?thesis by simp
next
  case False
  have "(d + 5 - (d + 4) mod 7) mod 7 = 1" by presburger
  with False show ?thesis by (simp add: algebra_simps)
qed

lemma back_to_tuesday:
  "(d + (if (d + 3) mod 7 = 0 then - 6 else 1 - (d + 3) mod 7) + 4) mod 7 = (2::int)"
proof (cases "(d + 3) mod 7 = 0")
  case True
  then have "(d - 2) mod 7 = 2" by presburger
  with True show ?thesis by simp
next
  case False
  have "(d + 5 - (d + 3) mod 7) mod 7 = 2" by presburger
  with False show ?thesis by (simp add: algebra_simps)
qed

lemma local_day_east:
  "0 \<le> tz \<Longrightarrow> tz < 1440 \<Longrightarrow> localTime tz (d * msPerDay) div msPerDay = d"
  by (simp add: localTime_def msPerDay_def div_pos_pos_trivial)

lemma local_day_west:
  assumes "- 1440 < tz" and "tz < 0"
  shows "localTime tz (d * msPerDay) div msPerDay = d - 1"
proof -
  have "localTime tz (d * msPerDay) = (d - 1) * msPerDay + (msPerDay + tz * 60000)"
    by (simp add: localTime_def algebra_simps)
  moreover have "0 \<le> msPerDay + tz * 60000" "msPerDay + tz * 60000 < msPerDay"
    using assms by (simp_all add: msPerDay_def)
  ultimately show ?thesis
    by (simp add: msPerDay_def div_pos_pos_trivial)
qed

lemma moveDate_midnight: "moveDate tz (d * msPerDay) diff = (d + diff) * msPerDay"
  by (simp add: moveDate_def localTime_def utcTime_def algebra_simps)

text \<open>
  Where the offset of the local time zone is \<open>tz\<close> throughout and is zero or east of UTC,
  the week key of a date that \<open>parseISODate\<close> accepts is the ISO date of the Monday on or
  before it.
\<close>

lemma week_key_east:
  assumes "0 \<le> tz" and "tz < 1440" and "parseISODate s = Some (d * msPerDay)"
  shows "\<exists>m. getGroupKey tz s Week = Inr (toISOString10 (m * msPerDay))
             \<and> weekDay (m * msPerDay) = 1 \<and> d - 6 \<le> m \<and> m \<le> d"
proof -
  let ?w = "(d + 4) mod 7"
  let ?diff = "if ?w = 0 then - 6 else 1 - ?w"
  have w: "getDay tz (d * msPerDay) = ?w"
    by (simp add: getDay_def weekDay_def local_day_east [OF assms(1,2)])
  have key: "getGroupKey tz s Week = Inr (toISOString10 ((d + ?diff) * msPerDay))"
    using assms(3) by (simp add: getGroupKey_def Let_def w moveDate_midnight)
  have mon: "weekDay ((d + ?diff) * msPerDay) = 1"
    unfolding weekDay_midnight by (rule back_to_monday)
  have "0 \<le> ?w" "?w < 7" by simp_all
  then have range: "d - 6 \<le> d + ?diff \<and> d + ?diff \<le> d" by auto
  from key mon range show ?thesis by blast
qed

text \<open>
  Where the offset of the local time zone is \<open>tz\<close> throughout and is west of UTC, the
  local day of a date parsed as UTC midnight is the day before, and the week key of a date
  that \<open>parseISODate\<close> accepts is the ISO date of a Tuesday.
\<close>

lemma week_key_west:
  assumes "- 1440 < tz" and "tz < 0" and "parseISODate s = Some (d * msPerDay)"
  shows "\<exists>m. getGroupKey tz s Week = Inr (toISOString10 (m * msPerDay))
             \<and> weekDay (m * msPerDay) = 2"
proof -
  let ?w = "(d + 3) mod 7"
  let ?diff = "if ?w = 0 then - 6 else 1 - ?w"
  have w: "getDay tz (d * msPerDay) = ?w"
    by (simp add: getDay_def weekDay_def local_day_west [OF assms(1,2)] add.commute)
  have key: "getGroupKey tz s Week = Inr (toISOString10 ((d + ?diff) * msPerDay))"
    using assms(3) by (simp add: getGroupKey_def Let_def w moveDate_midnight)
  have tue: "weekDay ((d + ?diff) * msPerDay) = 2"
    unfolding weekDay_midnight by (rule back_to_tuesday)
  from key tue show ?thesis by blast
qed

lemma compareChars_total: "compareChars a b \<le> 0 \<or> compareChars b a \<le> 0"
proof (induction a arbitrary: b)
  case Nil
  show ?case by (cases b) simp_all
next
  case (Cons x xs)
  show ?case
  proof (cases b)
    case Nil
    then show ?thesis by simp
  next
    case (Cons y ys)
    consider "(of_char x :: nat) < of_char y" | "(of_char y :: nat) < of_char x"
      | "(of_char x :: nat) = of_char y"
      by linarith
    then show ?thesis
    proof cases
      case 1
      then show ?thesis using Cons by simp
    next
      case 2
      then show ?thesis using Cons by simp
    next
      case 3
      then show ?thesis using Cons Cons.IH [of ys] by simp
    qed
  qed
qed

lemma compareChars_trans:
  "compareChars a b \<le> 0 \<Longrightarrow> compareChars b c \<le> 0 \<Longrightarrow> compareChars a c \<le> 0"
proof (induction a arbitrary: b c)
  case Nil
  show ?case by (cases c) simp_all
next
  case (Cons x xs)
  from Cons.prems(1) obtain y ys where b: "b = y # ys"
    by (cases b) simp_all
  from Cons.prems(2) b obtain z zs where c: "c = z # zs"
    by (cases c) simp_all
  have xy: "(of_char x :: nat) \<le> of_char y"
    using Cons.prems(1) b by (simp split: if_splits)
  have yz: "(of_char y :: nat) \<le> of_char z"
    using Cons.prems(2) b c by (simp split: if_splits)
  show ?case
  proof (cases "(of_char x :: nat) < of_char z")
    case True
    then show ?thesis using c by simp
  next
    case False
    with xy yz have eq: "(of_char x :: nat) = of_char y" "(of_char y :: nat) = of_char z"
      by linarith+
    have "compareChars xs ys \<le> 0" using Cons.prems(1) b eq by simp
    moreover have "compareChars ys zs \<le> 0" using Cons.prems(2) b c eq by simp
    ultimately have "compareChars xs zs \<le> 0" by (rule Cons.IH)
    then show ?thesis using c eq by simp
  qed
qed

text \<open>
  The series is sorted ascending by bucket key under the comparison by character code,
  whatever the input. That is the order of the code where the keys are dates of the shape
  \<open>YYYY-MM-DD\<close> or \<open>YYYY-MM\<close>.
\<close>

lemma calculateSpendingOverTime_sorted:
  "sorted_wrt (\<lambda>a b. localeCompare (sdate a) (sdate b) \<le> 0) (calculateSpendingOverTime tz ts g)"
proof (cases "foldl (spendingStep tz g) (Inr []) (filter (\<lambda>t. amount t < 0) ts)")
  case (Inl e)
  then show ?thesis by (simp add: calculateSpendingOverTime_def)
next
  case (Inr m)
  have "sorted_wrt (\<lambda>a b. localeCompare (sdate a) (sdate b) \<le> 0)
          (array_sort (\<lambda>a b. localeCompare (sdate a) (sdate b) \<le> 0) xs)" for xs
    unfolding localeCompare_def
    by (rule sorted_array_sort) (use compareChars_total compareChars_trans in blast)+
  then show ?thesis using Inr by (simp add: calculateSpendingOverTime_def)
qed

lemma parse_20250113: "parseISODate ''2025-01-13'' = Some (20101 * msPerDay)"
  by code_simp

lemma iso_20095: "toISOString10 (20095 * msPerDay) = ''2025-01-07''"
  by code_simp

lemma parse_20250107: "parseISODate ''2025-01-07'' = Some (20095 * msPerDay)"
  by code_simp

text \<open>
  C4. The claim asks that, for \<open>week\<close>, every bucket key be the date of a Monday. In a
  browser whose time zone is five hours west of UTC that week the expense dated Monday 2025-01-13 is
  put into the bucket \<open>2025-01-07\<close>, and 2025-01-07 is a Tuesday: the date is parsed as
  UTC midnight, its day of the week and day of the month are read in local time, where it
  is still the evening before, and the result is printed in UTC again.
\<close>

theorem week_key_is_tuesday_west_of_utc:
  "calculateSpendingOverTime (- 300)
     [\<lparr>tid = ''t1'', date = ''2025-01-13'', amount = - 20, category = ''Food'', tnotes = None\<rparr>] Week
     = [\<lparr>sdate = ''2025-01-07'', samount = 20\<rparr>]
   \<and> map_option weekDay (parseISODate ''2025-01-13'') = Some 1
   \<and> map_option weekDay (parseISODate ''2025-01-07'') = Some 2"
proof -
  have key: "getGroupKey (- 300) ''2025-01-13'' Week = Inr ''2025-01-07''"
    by (simp add: getGroupKey_def parse_20250113 getDay_def weekDay_def Let_def moveDate_midnight
          local_day_west iso_20095 del: parseISODate.simps)
  have run: "calculateSpendingOverTime (- 300)
     [\<lparr>tid = ''t1'', date = ''2025-01-13'', amount = - 20, category = ''Food'', tnotes = None\<rparr>] Week
     = [\<lparr>sdate = ''2025-01-07'', samount = 20\<rparr>]"
    by (simp add: calculateSpendingOverTime_def spendingStep_def key getOr0_def)
  have mon: "map_option weekDay (parseISODate ''2025-01-13'') = Some 1"
    by (simp only: parse_20250113 option.map) (simp add: weekDay_def msPerDay_def)
  have tue: "map_option weekDay (parseISODate ''2025-01-07'') = Some 2"
    by (simp only: parse_20250107 option.map) (simp add: weekDay_def msPerDay_def)
  from run mon tue show ?thesis by blast
qed

section \<open>Fail-soft policy\<close>

lemma andThen_Inl [simp]: "andThen (Inl e) f = Inl e"
  by (simp add: andThen_def)

lemma andThen_Inr [simp]: "andThen (Inr v) f = f v"
  by (simp add: andThen_def)

lemma andThen_isl: "isl r \<Longrightarrow> isl (andThen r f)"
  by (cases r) simp_all

lemma tryCatch_total:
  "(\<And>e. \<exists>v. handler e = Inr v) \<Longrightarrow> \<exists>v. tryCatch body handler = Inr v"
  by (cases body) (simp_all add: tryCatch_def)

lemma tryCatch_thrown: "isl body \<Longrightarrow> tryCatch body (\<lambda>error. r) = r"
  by (cases body) (simp_all add: tryCatch_def)

lemma requireArray_NotAnArray: "isl (requireArray NotAnArray)"
  by (simp add: requireArray_def)

lemma propAmount_nullish: "nullish x \<Longrightarrow> isl (propAmount x)"
  by (auto simp: nullish_def)

lemma propDate_nullish: "nullish x \<Longrightarrow> isl (propDate x)"
  by (auto simp: nullish_def)

lemma filterThrowing_nullish:
  assumes "\<And>x. nullish x \<Longrightarrow> isl (p x)" and "\<exists>x \<in> set xs. nullish x"
  shows "isl (filterThrowing p xs)"
  using assms(2)
proof (induction xs)
  case Nil
  then show ?case by simp
next
  case (Cons x xs)
  show ?case
  proof (cases "p x")
    case (Inl e)
    then show ?thesis by simp
  next
    case (Inr keep)
    then have "\<not> nullish x" using assms(1) [of x] by auto
    then have "isl (filterThrowing p xs)" using Cons by auto
    then show ?thesis using Inr by (cases "filterThrowing p xs") simp_all
  qed
qed

lemma reduce_addAmount_nullish:
  "\<exists>x \<in> set xs. nullish x \<Longrightarrow> isl (reduceThrowing addAmount acc xs)"
proof (induction xs arbitrary: acc)
  case Nil
  then show ?case by simp
next
  case (Cons x xs)
  show ?case
  proof (cases "propAmount x")
    case (Inl e)
    then have "addAmount acc x = Inl e" by (simp add: addAmount_def)
    then show ?thesis by simp
  next
    case (Inr a)
    then have step: "addAmount acc x = Inr (jsAdd acc a)" by (simp add: addAmount_def)
    have "\<not> nullish x" using Inr propAmount_nullish [of x] by auto
    then have "isl (reduceThrowing addAmount (jsAdd acc a) xs)" using Cons by auto
    then show ?thesis using step by simp
  qed
qed

lemma body_thrown:
  assumes "ts = NotAnArray \<or> (\<exists>xs. ts = Array xs \<and> isl (f xs))"
  shows "isl (andThen (requireArray ts) f)"
  using assms by (auto simp: requireArray_def)

lemma isExpense_nullish: "nullish x \<Longrightarrow> isl (isExpense x)"
  by (simp add: isExpense_def andThen_isl propAmount_nullish)

lemma inMonthExpense_nullish: "nullish x \<Longrightarrow> isl (inMonthExpense m x)"
  by (simp add: inMonthExpense_def andThen_isl propDate_nullish)

lemma relevantToBudget_nullish: "nullish x \<Longrightarrow> isl (relevantToBudget b x)"
  by (simp add: relevantToBudget_def andThen_isl propDate_nullish)

lemma malformed_body:
  assumes "malformed ts" and "\<And>x. nullish x \<Longrightarrow> isl (p x)"
  shows "isl (andThen (requireArray ts) (\<lambda>xs. andThen (filterThrowing p xs) f))"
proof (cases ts)
  case NotAnArray
  then show ?thesis by (simp add: requireArray_def)
next
  case (Array xs)
  then have "\<exists>x \<in> set xs. nullish x" using assms(1) by (simp add: malformed_def list_ex_iff)
  then have "isl (filterThrowing p xs)" using assms(2) by (intro filterThrowing_nullish) auto
  then show ?thesis using Array by (simp add: requireArray_def andThen_isl)
qed

text \<open>
  C9, as the code has it. Every function of the calculation engine returns without
  raising, \<open>calculateBudgetRemaining\<close> when its budget is an object. When the
  \<open>transactions\<close> argument is not an array, or is an array with a \<open>null\<close> or
  \<open>undefined\<close> element, so that evaluation throws, the result is the safe neutral value:
  0 for \<open>calculateTotalBalance\<close> and \<open>calculateMonthlySpending\<close>, the empty list for
  \<open>calculateCategoryTotals\<close> and \<open>calculateSpendingOverTime\<close>, and the budget's limit
  for \<open>calculateBudgetRemaining\<close>.
\<close>

theorem fail_soft_on_thrown:
  "(\<exists>r. calculateTotalBalance_dyn ts = Inr r)
   \<and> (\<exists>r. calculateMonthlySpending_dyn ts m = Inr r)
   \<and> (\<exists>r. calculateCategoryTotals_dyn ts = Inr r)
   \<and> (\<exists>r. calculateSpendingOverTime_dyn tz ts g = Inr r)
   \<and> (\<exists>r. calculateBudgetRemaining_dyn (BObject bm bc bl) ts = Inr r)
   \<and> (malformed ts \<longrightarrow>
        calculateTotalBalance_dyn ts = Inr (Num 0)
        \<and> calculateMonthlySpending_dyn ts m = Inr (Num 0)
        \<and> calculateCategoryTotals_dyn ts = Inr []
        \<and> calculateSpendingOverTime_dyn tz ts g = Inr []
        \<and> calculateBudgetRemaining_dyn (BObject bm bc bl) ts = Inr (Num bl))"
proof (intro conjI impI)
  show "\<exists>r. calculateTotalBalance_dyn ts = Inr r"
    unfolding calculateTotalBalance_dyn_def by (rule tryCatch_total) simp
  show "\<exists>r. calculateMonthlySpending_dyn ts m = Inr r"
    unfolding calculateMonthlySpending_dyn_def by (rule tryCatch_total) simp
  show "\<exists>r. calculateCategoryTotals_dyn ts = Inr r"
    unfolding calculateCategoryTotals_dyn_def by (rule tryCatch_total) simp
  show "\<exists>r. calculateSpendingOverTime_dyn tz ts g = Inr r"
    unfolding calculateSpendingOverTime_dyn_def by (rule tryCatch_total) simp
  show "\<exists>r. calculateBudgetRemaining_dyn (BObject bm bc bl) ts = Inr r"
    unfolding calculateBudgetRemaining_dyn_def by (rule tryCatch_total) simp
next
  assume mal: "malformed ts"
  have "isl (andThen (requireArray ts) (\<lambda>xs. reduceThrowing addAmount (Num 0) xs))"
  proof (cases ts)
    case NotAnArray
    then show ?thesis by (simp add: requireArray_def)
  next
    case (Array xs)
    then have "\<exists>x \<in> set xs. nullish x" using mal by (simp add: malformed_def list_ex_iff)
    then show ?thesis using Array by (simp add: requireArray_def reduce_addAmount_nullish)
  qed
  then show "calculateTotalBalance_dyn ts = Inr (Num 0)"
    unfolding calculateTotalBalance_dyn_def by (rule tryCatch_thrown)
  show "calculateMonthlySpending_dyn ts m = Inr (Num 0)"
    unfolding calculateMonthlySpending_dyn_def
    by (rule tryCatch_thrown, rule malformed_body [OF mal]) (rule inMonthExpense_nullish)
  show "calculateCategoryTotals_dyn ts = Inr []"
    unfolding calculateCategoryTotals_dyn_def
    by (rule tryCatch_thrown, rule malformed_body [OF mal]) (rule isExpense_nullish)
  show "calculateSpendingOverTime_dyn tz ts g = Inr []"
    unfolding calculateSpendingOverTime_dyn_def
    by (rule tryCatch_thrown, rule malformed_body [OF mal]) (rule isExpense_nullish)
  have "calculateBudgetRemaining_dyn (BObject bm bc bl) ts = propLimit (BObject bm bc bl)"
    unfolding calculateBudgetRemaining_dyn_def
    by (rule tryCatch_thrown, rule malformed_body [OF mal]) (rule relevantToBudget_nullish)
  then show "calculateBudgetRemaining_dyn (BObject bm bc bl) ts = Inr (Num bl)" by simp
qed

theorem fail_soft_on_thrown_witness:
  "malformed (Array [EObject ''2025-01-15'' (Some (- 45.5)) ''Groceries'', ENull])
   \<and> calculateTotalBalance_dyn
        (Array [EObject ''2025-01-15'' (Some (- 45.5)) ''Groceries'', ENull]) = Inr (Num 0)
   \<and> calculateCategoryTotals_dyn
        (Array [EObject ''2025-01-15'' (Some (- 45.5)) ''Groceries'', ENull]) = Inr []
   \<and> calculateBudgetRemaining_dyn (BObject ''2025-01'' ''Groceries'' 400)
        (Array [EObject ''2025-01-15'' (Some (- 45.5)) ''Groceries'', ENull]) = Inr (Num 400)
   \<and> malformed NotAnArray
   \<and> calculateSpendingOverTime_dyn 0 NotAnArray Week = Inr []"
proof -
  let ?ts = "Array [EObject ''2025-01-15'' (Some (- 45.5)) ''Groceries'', ENull]"
  have m1: "malformed ?ts" by (simp add: malformed_def nullish_def)
  have m2: "malformed NotAnArray" by (simp add: malformed_def)
  from fail_soft_on_thrown [of ?ts _ _ _ "''2025-01''" "''Groceries''" 400] m1
       fail_soft_on_thrown [of NotAnArray _ 0 Week] m2
  show ?thesis by blast
qed

text \<open>
  The claim as the specification words it promises the neutral value for every value of
  the wrong shape. An element without an \<open>amount\<close> throws nothing, and
  \<open>calculateTotalBalance\<close> returns \<open>NaN\<close> instead of 0.
\<close>

theorem missing_amount_counterexample:
  "calculateTotalBalance_dyn (Array [EObject ''2025-01-15'' None ''Groceries'']) = Inr NaN
   \<and> calculateTotalBalance_dyn (Array [EObject ''2025-01-15'' None ''Groceries'']) \<noteq> Inr (Num 0)"
  by (simp add: calculateTotalBalance_dyn_def requireArray_def addAmount_def tryCatch_def)

text \<open>
  With a \<open>null\<close> budget the handler of \<open>calculateBudgetRemaining\<close> reads
  \<open>budget.limit\<close> itself and throws.
\<close>

lemma null_budget_raises:
  "calculateBudgetRemaining_dyn BNull (Array []) =
     Inl (TypeError ''Cannot read properties of null (reading 'limit')'')"
  by (simp add: calculateBudgetRemaining_dyn_def requireArray_def tryCatch_def)


lemma reduce_addAmount_typed:
  "reduceThrowing addAmount (Num a) (map asElement ts) =
     Inr (Num (foldl (\<lambda>sum t. sum + amount t) a ts))"
  by (induction ts arbitrary: a) (simp_all add: addAmount_def asElement_def)

lemma filterThrowing_typed:
  assumes "\<And>t. p (asElement t) = Inr (q t)"
  shows "filterThrowing p (map asElement ts) = Inr (map asElement (filter q ts))"
  by (induction ts) (simp_all add: assms)

lemma map_of_numEntry: "map_of (map numEntry m) k = map_option Num (map_of m k)"
  by (induction m) (auto simp: numEntry_def)

lemma getOr0_numEntry: "getOr0_dyn (map numEntry m) k = Num (getOr0 m k)"
  by (simp add: getOr0_dyn_def getOr0_def map_of_numEntry split: option.splits)

lemma map_set_numEntry: "map_set_dyn k (Num v) (map numEntry m) = map numEntry (map_set k v m)"
  by (induction m) (auto simp: numEntry_def)

lemma array_sort_map:
  "array_sort P (map f xs) = map f (array_sort (\<lambda>a b. P (f a) (f b)) xs)"
proof (induction xs)
  case Nil
  show ?case by simp
next
  case (Cons x xs)
  have ins: "sort_insert P (f x) (map f ys) = map f (sort_insert (\<lambda>a b. P (f a) (f b)) x ys)" for ys
    by (induction ys) simp_all
  show ?case by (simp add: Cons ins)
qed

lemma reduce_categoryStep_typed:
  "reduceThrowing categoryStep_dyn (map numEntry m) (map asElement ts) =
     Inr (map numEntry (foldl (categoryStep (\<lambda>x. x)) m ts))"
proof (induction ts arbitrary: m)
  case Nil
  show ?case by simp
next
  case (Cons t ts)
  have "categoryStep_dyn (map numEntry m) (asElement t) =
          Inr (map numEntry (categoryStep (\<lambda>x. x) m t))"
    by (simp add: categoryStep_dyn_def categoryStep_def asElement_def getOr0_numEntry
          map_set_numEntry)
  then show ?case using Cons [of "categoryStep (\<lambda>x. x) m t"] by simp
qed

lemma reduce_spendingStep_typed:
  "reduceThrowing (spendingStep_dyn tz g) (map numEntry m) (map asElement ts) =
     (case foldl (spendingStep tz g) (Inr m) ts of
        Inl e \<Rightarrow> Inl e
      | Inr m' \<Rightarrow> Inr (map numEntry m'))"
proof (induction ts arbitrary: m)
  case Nil
  show ?case by simp
next
  case (Cons t ts)
  have stuck: "foldl (spendingStep tz g) (Inl e) us = Inl e" for e us
    by (induction us) (simp_all add: spendingStep_def)
  show ?case
  proof (cases "getGroupKey tz (date t) g")
    case (Inl e)
    then have "spendingStep_dyn tz g (map numEntry m) (asElement t) = Inl e"
      by (simp add: spendingStep_dyn_def asElement_def)
    moreover have "spendingStep tz g (Inr m) t = Inl e"
      using Inl by (simp add: spendingStep_def)
    ultimately show ?thesis by (simp add: stuck)
  next
    case (Inr k)
    then have "spendingStep_dyn tz g (map numEntry m) (asElement t) =
                 Inr (map numEntry (map_set k (getOr0 m k + \<bar>amount t\<bar>) m))"
      by (simp add: spendingStep_dyn_def asElement_def getOr0_numEntry map_set_numEntry)
    moreover have "spendingStep tz g (Inr m) t = Inr (map_set k (getOr0 m k + \<bar>amount t\<bar>) m)"
      using Inr by (simp add: spendingStep_def)
    ultimately show ?thesis
      using Cons [of "map_set k (getOr0 m k + \<bar>amount t\<bar>) m"] by simp
  qed
qed

text \<open>
  On an array of transactions of the declared type the functions on malformed input
  compute what the functions of the typed model compute (the totals per category with
  exact additions on both sides).
\<close>

lemma typed_input_agrees:
  "calculateTotalBalance_dyn (Array (map asElement ts)) = Inr (Num (calculateTotalBalance ts))"
  "calculateMonthlySpending_dyn (Array (map asElement ts)) m =
     Inr (Num (calculateMonthlySpending ts m))"
  "calculateBudgetRemaining_dyn (asBudgetArg b) (Array (map asElement ts)) =
     Inr (Num (calculateBudgetRemaining b ts))"
  "calculateCategoryTotals_dyn (Array (map asElement ts)) =
     Inr (map (\<lambda>x. (ccategory x, Num (ctotal x))) (calculateCategoryTotals (\<lambda>x. x) ts))"
  "calculateSpendingOverTime_dyn tz (Array (map asElement ts)) g =
     Inr (map (\<lambda>x. (sdate x, Num (samount x))) (calculateSpendingOverTime tz ts g))"
proof -
  show "calculateTotalBalance_dyn (Array (map asElement ts)) = Inr (Num (calculateTotalBalance ts))"
    by (simp add: calculateTotalBalance_dyn_def calculateTotalBalance_def requireArray_def
          tryCatch_def reduce_addAmount_typed)
  have f1: "filterThrowing (inMonthExpense m) (map asElement ts) =
              Inr (map asElement (filter (\<lambda>t. startsWith (date t) m \<and> amount t < 0) ts))"
    by (rule filterThrowing_typed) (simp add: inMonthExpense_def asElement_def)
  show "calculateMonthlySpending_dyn (Array (map asElement ts)) m =
     Inr (Num (calculateMonthlySpending ts m))"
    by (simp add: calculateMonthlySpending_dyn_def calculateMonthlySpending_def requireArray_def
          tryCatch_def f1 reduce_addAmount_typed)
  have f2: "filterThrowing (relevantToBudget (asBudgetArg b)) (map asElement ts) =
              Inr (map asElement (filter (\<lambda>t. startsWith (date t) (month b) \<and>
                     category t = bcategory b \<and> amount t < 0) ts))"
    by (rule filterThrowing_typed) (simp add: relevantToBudget_def asElement_def asBudgetArg_def)
  show "calculateBudgetRemaining_dyn (asBudgetArg b) (Array (map asElement ts)) =
     Inr (Num (calculateBudgetRemaining b ts))"
    by (simp add: calculateBudgetRemaining_dyn_def calculateBudgetRemaining_def requireArray_def
          tryCatch_def f2 reduce_addAmount_typed)
      (simp add: asBudgetArg_def)
  have f3: "filterThrowing isExpense (map asElement ts) =
              Inr (map asElement (filter (\<lambda>t. amount t < 0) ts))"
    by (rule filterThrowing_typed) (simp add: isExpense_def asElement_def)
  let ?ex = "filter (\<lambda>t. amount t < 0) ts"
  have r3: "reduceThrowing categoryStep_dyn [] (map asElement ?ex) =
              Inr (map numEntry (foldl (categoryStep (\<lambda>x. x)) [] ?ex))"
    using reduce_categoryStep_typed [of "[]" ?ex] by simp
  show "calculateCategoryTotals_dyn (Array (map asElement ts)) =
     Inr (map (\<lambda>x. (ccategory x, Num (ctotal x))) (calculateCategoryTotals (\<lambda>x. x) ts))"
    by (simp add: calculateCategoryTotals_dyn_def calculateCategoryTotals_def requireArray_def
          tryCatch_def f3 r3 array_sort_map compareLE0_def numEntry_def case_prod_beta comp_def)
  have r4: "reduceThrowing (spendingStep_dyn tz g) [] (map asElement ?ex) =
     (case foldl (spendingStep tz g) (Inr []) ?ex of
        Inl e \<Rightarrow> Inl e
      | Inr m' \<Rightarrow> Inr (map numEntry m'))"
    using reduce_spendingStep_typed [of tz g "[]" ?ex] by simp
  show "calculateSpendingOverTime_dyn tz (Array (map asElement ts)) g =
     Inr (map (\<lambda>x. (sdate x, Num (samount x))) (calculateSpendingOverTime tz ts g))"
    by (simp add: calculateSpendingOverTime_dyn_def calculateSpendingOverTime_def requireArray_def
          tryCatch_def f3 r4 array_sort_map numEntry_def case_prod_beta comp_def
          split: sum.splits)
qed

end

